theory Spec2Isabelle
  imports Main "HOL-Library.Word"
begin

section \<open>Operator manipulation commands (src/backend/commands/operatorcmds.c)\<close>

text \<open>
  A shallow embedding of \<^verbatim>\<open>DefineOperator\<close>, \<^verbatim>\<open>ValidateRestrictionEstimator\<close>,
  \<^verbatim>\<open>ValidateJoinEstimator\<close>, \<^verbatim>\<open>RemoveOperatorById\<close> and \<^verbatim>\<open>AlterOperator\<close>.
  Every \<^verbatim>\<open>ereport(ERROR, ...)\<close> and \<^verbatim>\<open>elog(ERROR, ...)\<close> of the source is a
  branch returning \<open>Inl\<close>; a \<^verbatim>\<open>ereport(WARNING, ...)\<close> is an event of the run and
  the run goes on. Routines of other files of the backend (parser, catalog, cache,
  access methods, privilege checks) are fields of a record of collaborators, so that
  every theorem holds for whatever those routines do.
\<close>

subsection \<open>Basic types\<close>

type_synonym Oid = "32 word"
type_synonym Datum = "64 word"
type_synonym ItemPointerData = nat

definition InvalidOid :: Oid where
  "InvalidOid = 0"

definition OidIsValid :: "Oid \<Rightarrow> bool" where
  "OidIsValid objectId = (objectId \<noteq> InvalidOid)"

definition ObjectIdGetDatum :: "Oid \<Rightarrow> Datum" where
  "ObjectIdGetDatum X = ucast X"

definition DatumGetObjectId :: "Datum \<Rightarrow> Oid" where
  "DatumGetObjectId X = ucast X"

text \<open>
  Modelled from the spec: the type identifiers of catalog/pg_type.h are not among the
  sources. The spec names the types (boolean, double-precision float, the internal
  planner types, the operator identifier, the integer hints); the numbers are the
  catalog's fixed identifiers of these types. No theorem below depends on the numbers
  beyond what it evaluates at a concrete input.
\<close>

definition BOOLOID :: Oid where "BOOLOID = 16"
definition INT2OID :: Oid where "INT2OID = 21"
definition INT4OID :: Oid where "INT4OID = 23"
definition OIDOID :: Oid where "OIDOID = 26"
definition FLOAT8OID :: Oid where "FLOAT8OID = 701"
definition INTERNALOID :: Oid where "INTERNALOID = 2281"

text \<open>
  Modelled from the spec: the attribute numbers of catalog/pg_operator.h are not among
  the sources. A row of the operator catalog has fifteen attributes, in this order:
  oid, oprname, oprnamespace, oprowner, oprkind, oprcanmerge, oprcanhash, oprleft,
  oprright, oprresult, oprcom, oprnegate, oprcode, oprrest, oprjoin.
\<close>

definition Natts_pg_operator :: nat where "Natts_pg_operator = 15"
definition Anum_pg_operator_oprname :: nat where "Anum_pg_operator_oprname = 2"
definition Anum_pg_operator_oprleft :: nat where "Anum_pg_operator_oprleft = 8"
definition Anum_pg_operator_oprright :: nat where "Anum_pg_operator_oprright = 9"
definition Anum_pg_operator_oprresult :: nat where "Anum_pg_operator_oprresult = 10"
definition Anum_pg_operator_oprcom :: nat where "Anum_pg_operator_oprcom = 11"
definition Anum_pg_operator_oprnegate :: nat where "Anum_pg_operator_oprnegate = 12"
definition Anum_pg_operator_oprrest :: nat where "Anum_pg_operator_oprrest = 14"
definition Anum_pg_operator_oprjoin :: nat where "Anum_pg_operator_oprjoin = 15"

subsection \<open>Error reports\<close>

datatype elevel = WARNING | ERROR

datatype sqlstate =
    ERRCODE_INVALID_FUNCTION_DEFINITION
  | ERRCODE_INVALID_OBJECT_DEFINITION
  | ERRCODE_AMBIGUOUS_FUNCTION
  | ERRCODE_UNDEFINED_FUNCTION
  | ERRCODE_UNDEFINED_OBJECT
  | ERRCODE_SYNTAX_ERROR
  | ERRCODE_INSUFFICIENT_PRIVILEGE
  | ERRCODE_INTERNAL_ERROR

text \<open>
  The arguments of a message format: a string (\<^verbatim>\<open>%s\<close>), an identifier
  (\<^verbatim>\<open>%u\<close>), or the signature that a failed function lookup names (the name, the
  number of arguments and the argument types it looked for).
\<close>

datatype fmtarg =
    fmt_s string
  | fmt_u Oid
  | fmt_signature "string list" nat "Oid list"

datatype ErrorData = ErrorData
  (elevel: elevel) (sqlerrcode: sqlstate) (message: string)
  (message_args: "fmtarg list") (detail: "string option")

definition ereport :: "elevel \<Rightarrow> sqlstate \<Rightarrow> string \<Rightarrow> fmtarg list \<Rightarrow> ErrorData" where
  "ereport lev code msg as = ErrorData lev code msg as None"

text \<open>\<^verbatim>\<open>elog(ERROR, ...)\<close> reports an internal error.\<close>

definition elog :: "elevel \<Rightarrow> string \<Rightarrow> fmtarg list \<Rightarrow> ErrorData" where
  "elog lev msg as = ErrorData lev ERRCODE_INTERNAL_ERROR msg as None"

subsection \<open>Parse nodes and catalog rows\<close>

record TypeName =
  names :: "string list"
  setof :: bool

datatype Node =
    T_TypeName TypeName
  | T_String string
  | T_Integer int
  | T_Float string
  | T_List "string list"

record DefElem =
  defname :: string
  arg :: "Node option"

record ObjectWithArgs =
  objname :: "string list"
  objargs :: "TypeName list"

record AlterOperatorStmt =
  opername :: ObjectWithArgs
  options :: "DefElem list"

record ObjectAddress =
  classId :: Oid
  objectId :: Oid
  objectSubId :: int

text \<open>
  A heap tuple of pg_operator: its location \<open>t_self\<close> and its attributes, attribute
  number \<open>n\<close> at index \<open>n - 1\<close>.
\<close>

record HeapTuple =
  t_self :: ItemPointerData
  t_values :: "Datum list"
  t_isnull :: "bool list"

text \<open>The fields of \<^verbatim>\<open>Form_pg_operator\<close> that the commands read.\<close>

definition oprleft :: "HeapTuple \<Rightarrow> Oid" where
  "oprleft tup = DatumGetObjectId (t_values tup ! (Anum_pg_operator_oprleft - 1))"

definition oprright :: "HeapTuple \<Rightarrow> Oid" where
  "oprright tup = DatumGetObjectId (t_values tup ! (Anum_pg_operator_oprright - 1))"

definition oprresult :: "HeapTuple \<Rightarrow> Oid" where
  "oprresult tup = DatumGetObjectId (t_values tup ! (Anum_pg_operator_oprresult - 1))"

definition oprcom :: "HeapTuple \<Rightarrow> Oid" where
  "oprcom tup = DatumGetObjectId (t_values tup ! (Anum_pg_operator_oprcom - 1))"

definition oprnegate :: "HeapTuple \<Rightarrow> Oid" where
  "oprnegate tup = DatumGetObjectId (t_values tup ! (Anum_pg_operator_oprnegate - 1))"

definition oprrest :: "HeapTuple \<Rightarrow> Oid" where
  "oprrest tup = DatumGetObjectId (t_values tup ! (Anum_pg_operator_oprrest - 1))"

definition oprjoin :: "HeapTuple \<Rightarrow> Oid" where
  "oprjoin tup = DatumGetObjectId (t_values tup ! (Anum_pg_operator_oprjoin - 1))"

datatype AclResult = ACLCHECK_OK | ACLCHECK_NO_PRIV | ACLCHECK_NOT_OWNER
datatype AclMode = ACL_CREATE | ACL_USAGE | ACL_EXECUTE
datatype ObjectType = OBJECT_SCHEMA | OBJECT_FUNCTION | OBJECT_OPERATOR

text \<open>
  The arguments of the call of \<^verbatim>\<open>OperatorCreate\<close>, in the order of the source
  (the prefix keeps them apart from the local variables of the same names).
\<close>

record OperatorCreate_args =
  oc_operatorName :: string
  oc_operatorNamespace :: Oid
  oc_leftTypeId :: Oid
  oc_rightTypeId :: Oid
  oc_procedureId :: Oid
  oc_commutatorName :: "string list"
  oc_negatorName :: "string list"
  oc_restrictionId :: Oid
  oc_joinId :: Oid
  oc_canMerge :: bool
  oc_canHash :: bool

subsection \<open>Runs: events, errors and results\<close>

text \<open>
  The events of a run, in the order they happen: the reports below \<^verbatim>\<open>ERROR\<close> and
  the calls of the collaborators that look functions up and that read, change and delete
  rows of pg_operator.
\<close>

datatype event =
    Report ErrorData
  | LookupFuncName_call "string list" nat "Oid list" bool
  | SearchSysCache1_call Oid
  | ReleaseSysCache_call ItemPointerData
  | OperatorUpd_call Oid Oid Oid bool
  | CatalogTupleDelete_call ItemPointerData
  | CatalogTupleUpdate_call ItemPointerData HeapTuple
  | OperatorCreate_call OperatorCreate_args

type_synonym 'a run = "event list \<times> (ErrorData + 'a)"

definition done_with :: "'a \<Rightarrow> 'a run" where
  "done_with x = ([], Inr x)"

definition raise :: "ErrorData \<Rightarrow> 'a run" where
  "raise e = ([], Inl e)"

definition emit :: "event \<Rightarrow> unit run" where
  "emit ev = ([ev], Inr ())"

definition lift :: "ErrorData + 'a \<Rightarrow> 'a run" where
  "lift r = ([], r)"

definition and_then :: "'a run \<Rightarrow> ('a \<Rightarrow> 'b run) \<Rightarrow> 'b run" where
  "and_then m f =
     (case m of
        (es, Inl e) \<Rightarrow> (es, Inl e)
      | (es, Inr x) \<Rightarrow> (case f x of (es', r) \<Rightarrow> (es @ es', r)))"

subsection \<open>The collaborators\<close>

text \<open>
  The routines of the backend that operatorcmds.c calls and that live in other files.
  \<open>'s\<close> is the state of the operator catalog. A routine that can report an error
  returns a sum; one that changes the catalog returns the new state.
\<close>

record 's collaborators =
  GetUserId :: Oid
  NameListToString :: "string list \<Rightarrow> string"
  QualifiedNameGetCreationNamespace :: "string list \<Rightarrow> ErrorData + Oid \<times> string"
  get_namespace_name :: "Oid \<Rightarrow> string"
  pg_namespace_aclcheck :: "Oid \<Rightarrow> Oid \<Rightarrow> AclMode \<Rightarrow> AclResult"
  pg_type_aclcheck :: "Oid \<Rightarrow> Oid \<Rightarrow> AclMode \<Rightarrow> AclResult"
  pg_proc_aclcheck :: "Oid \<Rightarrow> Oid \<Rightarrow> AclMode \<Rightarrow> AclResult"
  aclcheck_error :: "AclResult \<Rightarrow> ObjectType \<Rightarrow> string \<Rightarrow> ErrorData"
  aclcheck_error_type :: "AclResult \<Rightarrow> Oid \<Rightarrow> ErrorData"
  defGetTypeName :: "DefElem \<Rightarrow> ErrorData + TypeName"
  defGetQualifiedName :: "DefElem \<Rightarrow> ErrorData + string list"
  defGetBoolean :: "DefElem \<Rightarrow> ErrorData + bool"
  typenameTypeId :: "TypeName \<Rightarrow> ErrorData + Oid"
  func_exact_match :: "string list \<Rightarrow> Oid list \<Rightarrow> Oid"
  get_func_rettype :: "Oid \<Rightarrow> Oid"
  c_OperatorCreate :: "OperatorCreate_args \<Rightarrow> 's \<Rightarrow> ErrorData + ObjectAddress \<times> 's"
  LookupOperWithArgs :: "ObjectWithArgs \<Rightarrow> bool \<Rightarrow> 's \<Rightarrow> ErrorData + Oid"
  syscache_OPEROID :: "'s \<Rightarrow> Oid \<Rightarrow> HeapTuple option"
  pg_oper_ownercheck :: "'s \<Rightarrow> Oid \<Rightarrow> Oid \<Rightarrow> bool"
  NameStr_oprname :: "HeapTuple \<Rightarrow> string"
  c_OperatorUpd :: "Oid \<Rightarrow> Oid \<Rightarrow> Oid \<Rightarrow> bool \<Rightarrow> 's \<Rightarrow> ErrorData + 's"
  c_CatalogTupleDelete :: "ItemPointerData \<Rightarrow> 's \<Rightarrow> ErrorData + 's"
  c_CatalogTupleUpdate :: "ItemPointerData \<Rightarrow> HeapTuple \<Rightarrow> 's \<Rightarrow> ErrorData + 's"
  makeOperatorDependencies :: "HeapTuple \<Rightarrow> bool \<Rightarrow> 's \<Rightarrow> ErrorData + ObjectAddress \<times> 's"
  InvokeObjectPostAlterHook :: "Oid \<Rightarrow> 's \<Rightarrow> ErrorData + 's"

text \<open>
  Modelled from the spec: \<^verbatim>\<open>LookupFuncName\<close> (parser/parse_func.c) is not among the
  sources. The spec: \<^verbatim>\<open>resolve_function(qualified_name, arg_types, arity, must_exist)
  -> function_id | absent\<close>, an exact match of the signature, failing
  \<^verbatim>\<open>UndefinedFunction\<close> when nothing matches and the function must exist. The callee
  reads the first \<open>nargs\<close> entries of the array \<open>argtypes\<close>. The search itself is the
  collaborator \<open>func_exact_match\<close>, which answers \<open>InvalidOid\<close> when nothing matches.
\<close>

definition LookupFuncName ::
  "'s collaborators \<Rightarrow> string list \<Rightarrow> nat \<Rightarrow> Oid list \<Rightarrow> bool \<Rightarrow> Oid run" where
  "LookupFuncName env funcname nargs argtypes missing_ok =
     and_then (emit (LookupFuncName_call funcname nargs (take nargs argtypes) missing_ok))
       (\<lambda>_. let oid = func_exact_match env funcname (take nargs argtypes) in
          if OidIsValid oid then done_with oid
          else if missing_ok then done_with InvalidOid
          else raise (ereport ERROR ERRCODE_UNDEFINED_FUNCTION ''function %s does not exist''
                        [fmt_signature funcname nargs (take nargs argtypes)]))"

subsection \<open>The estimator validators\<close>

definition ValidateRestrictionEstimator :: "'s collaborators \<Rightarrow> string list \<Rightarrow> Oid run" where
  "ValidateRestrictionEstimator env restrictionName =
     (let typeId = [INTERNALOID, OIDOID, INTERNALOID, INT4OID] in
      and_then (LookupFuncName env restrictionName 4 typeId False) (\<lambda>restrictionOid.
        if get_func_rettype env restrictionOid \<noteq> FLOAT8OID
        then raise (ereport ERROR ERRCODE_INVALID_OBJECT_DEFINITION
                      ''restriction estimator function %s must return type %s''
                      [fmt_s (NameListToString env restrictionName), fmt_s ''float8''])
        else
          let aclresult = pg_proc_aclcheck env restrictionOid (GetUserId env) ACL_EXECUTE in
          if aclresult \<noteq> ACLCHECK_OK
          then raise (aclcheck_error env aclresult OBJECT_FUNCTION
                        (NameListToString env restrictionName))
          else done_with restrictionOid))"

text \<open>
  The array \<open>typeId\<close> has five entries; the lookup of the old form passes the same array
  with \<open>nargs = 4\<close>. The third lookup runs only when both lookups found nothing, and it
  is the one that reports the error.
\<close>

definition ValidateJoinEstimator :: "'s collaborators \<Rightarrow> string list \<Rightarrow> Oid run" where
  "ValidateJoinEstimator env joinName =
     (let typeId = [INTERNALOID, OIDOID, INTERNALOID, INT2OID, INTERNALOID] in
      and_then (LookupFuncName env joinName 5 typeId True) (\<lambda>joinOid.
      and_then (LookupFuncName env joinName 4 typeId True) (\<lambda>joinOid2.
      and_then
        (if OidIsValid joinOid
         then (if OidIsValid joinOid2
               then raise (ereport ERROR ERRCODE_AMBIGUOUS_FUNCTION
                             ''join estimator function %s has multiple matches''
                             [fmt_s (NameListToString env joinName)])
               else done_with joinOid)
         else (if \<not> OidIsValid joinOid2
               then LookupFuncName env joinName 5 typeId False
               else done_with joinOid2))
        (\<lambda>joinOid.
          if get_func_rettype env joinOid \<noteq> FLOAT8OID
          then raise (ereport ERROR ERRCODE_INVALID_OBJECT_DEFINITION
                        ''join estimator function %s must return type %s''
                        [fmt_s (NameListToString env joinName), fmt_s ''float8''])
          else
            let aclresult = pg_proc_aclcheck env joinOid (GetUserId env) ACL_EXECUTE in
            if aclresult \<noteq> ACLCHECK_OK
            then raise (aclcheck_error env aclresult OBJECT_FUNCTION
                          (NameListToString env joinName))
            else done_with joinOid))))"

subsection \<open>DefineOperator\<close>

text \<open>
  The local variables that the loop over the definition list assigns. \<open>NIL\<close> is the
  empty list, a \<^verbatim>\<open>NULL\<close> type name is \<open>None\<close>.
\<close>

record estimator_vars =
  restrictionName :: "string list"
  joinName :: "string list"

record DefineOperator_vars = estimator_vars +
  canMerge :: bool
  canHash :: bool
  functionName :: "string list"
  typeName1 :: "TypeName option"
  typeName2 :: "TypeName option"
  commutatorName :: "string list"
  negatorName :: "string list"

definition DefineOperator_init :: DefineOperator_vars where
  "DefineOperator_init =
     \<lparr>restrictionName = [], joinName = [], canMerge = False, canHash = False,
      functionName = [], typeName1 = None, typeName2 = None,
      commutatorName = [], negatorName = []\<rparr>"

text \<open>The body of the loop (lines 103 to 154), for one element of the list.\<close>

definition DefineOperator_defel ::
  "'s collaborators \<Rightarrow> DefineOperator_vars \<Rightarrow> DefElem \<Rightarrow> DefineOperator_vars run" where
  \<open>DefineOperator_defel env v defel =
     (if defname defel = ''leftarg'' then
        and_then (lift (defGetTypeName env defel)) (\<lambda>t.
          if setof t
          then raise (ereport ERROR ERRCODE_INVALID_FUNCTION_DEFINITION
                        ''SETOF type not allowed for operator argument'' [])
          else done_with (v\<lparr>typeName1 := Some t\<rparr>))
      else if defname defel = ''rightarg'' then
        and_then (lift (defGetTypeName env defel)) (\<lambda>t.
          if setof t
          then raise (ereport ERROR ERRCODE_INVALID_FUNCTION_DEFINITION
                        ''SETOF type not allowed for operator argument'' [])
          else done_with (v\<lparr>typeName2 := Some t\<rparr>))
      else if defname defel = ''function'' then
        and_then (lift (defGetQualifiedName env defel)) (\<lambda>n. done_with (v\<lparr>functionName := n\<rparr>))
      else if defname defel = ''procedure'' then
        and_then (lift (defGetQualifiedName env defel)) (\<lambda>n. done_with (v\<lparr>functionName := n\<rparr>))
      else if defname defel = ''commutator'' then
        and_then (lift (defGetQualifiedName env defel)) (\<lambda>n. done_with (v\<lparr>commutatorName := n\<rparr>))
      else if defname defel = ''negator'' then
        and_then (lift (defGetQualifiedName env defel)) (\<lambda>n. done_with (v\<lparr>negatorName := n\<rparr>))
      else if defname defel = ''restrict'' then
        and_then (lift (defGetQualifiedName env defel)) (\<lambda>n. done_with (v\<lparr>restrictionName := n\<rparr>))
      else if defname defel = ''join'' then
        and_then (lift (defGetQualifiedName env defel)) (\<lambda>n. done_with (v\<lparr>joinName := n\<rparr>))
      else if defname defel = ''hashes'' then
        and_then (lift (defGetBoolean env defel)) (\<lambda>b. done_with (v\<lparr>canHash := b\<rparr>))
      else if defname defel = ''merges'' then
        and_then (lift (defGetBoolean env defel)) (\<lambda>b. done_with (v\<lparr>canMerge := b\<rparr>))
      else if defname defel = ''sort1'' then done_with (v\<lparr>canMerge := True\<rparr>)
      else if defname defel = ''sort2'' then done_with (v\<lparr>canMerge := True\<rparr>)
      else if defname defel = ''ltcmp'' then done_with (v\<lparr>canMerge := True\<rparr>)
      else if defname defel = ''gtcmp'' then done_with (v\<lparr>canMerge := True\<rparr>)
      else
        and_then (emit (Report (ereport WARNING ERRCODE_SYNTAX_ERROR
                                  ''operator attribute "%s" not recognized''
                                  [fmt_s (defname defel)])))
          (\<lambda>_. done_with v))\<close>

fun DefineOperator_foreach ::
  "'s collaborators \<Rightarrow> DefineOperator_vars \<Rightarrow> DefElem list \<Rightarrow> DefineOperator_vars run" where
  "DefineOperator_foreach env v [] = done_with v"
| "DefineOperator_foreach env v (defel # pl) =
     and_then (DefineOperator_defel env v defel) (\<lambda>v'. DefineOperator_foreach env v' pl)"

text \<open>
  Lines 205 to 220: the argument array and the number of arguments of the lookup of the
  operator's function. Only the first \<open>nargs\<close> entries of the array are assigned.
\<close>

definition DefineOperator_lookup_args :: "Oid \<Rightarrow> Oid \<Rightarrow> Oid list \<times> nat" where
  "DefineOperator_lookup_args typeId1 typeId2 =
     (if \<not> OidIsValid typeId1 then ([typeId2], 1)
      else if \<not> OidIsValid typeId2 then ([typeId1], 1)
      else ([typeId1, typeId2], 2))"

text \<open>
  Lines 166 to 169: a type name that was given is resolved; the identifier of one that
  was not given stays \<open>InvalidOid\<close>.
\<close>

definition DefineOperator_typeId ::
  "'s collaborators \<Rightarrow> TypeName option \<Rightarrow> ErrorData + Oid" where
  "DefineOperator_typeId env typeName =
     (case typeName of None \<Rightarrow> Inr InvalidOid | Some t \<Rightarrow> typenameTypeId env t)"

definition OperatorCreate ::
  "'s collaborators \<Rightarrow> OperatorCreate_args \<Rightarrow> 's \<Rightarrow> (ObjectAddress \<times> 's) run" where
  "OperatorCreate env a s =
     and_then (emit (OperatorCreate_call a)) (\<lambda>_. lift (c_OperatorCreate env a s))"

text \<open>
  Lines 188 to 264: the privilege checks on the operand types, the lookup of the
  operator's function, the estimators, and the call of \<^verbatim>\<open>OperatorCreate\<close>.
\<close>

definition DefineOperator_create ::
  "'s collaborators \<Rightarrow> Oid \<Rightarrow> string \<Rightarrow> DefineOperator_vars \<Rightarrow> Oid \<Rightarrow> Oid \<Rightarrow> 's \<Rightarrow>
     (ObjectAddress \<times> 's) run" where
  "DefineOperator_create env oprNamespace oprName v typeId1 typeId2 s =
     and_then
       (if typeName1 v \<noteq> None
        then (let aclresult = pg_type_aclcheck env typeId1 (GetUserId env) ACL_USAGE in
              if aclresult \<noteq> ACLCHECK_OK
              then raise (aclcheck_error_type env aclresult typeId1) else done_with ())
        else done_with ()) (\<lambda>_.
     and_then
       (if typeName2 v \<noteq> None
        then (let aclresult = pg_type_aclcheck env typeId2 (GetUserId env) ACL_USAGE in
              if aclresult \<noteq> ACLCHECK_OK
              then raise (aclcheck_error_type env aclresult typeId2) else done_with ())
        else done_with ()) (\<lambda>_.
     case DefineOperator_lookup_args typeId1 typeId2 of (typeId, nargs) \<Rightarrow>
     and_then (LookupFuncName env (functionName v) nargs typeId False) (\<lambda>functionOid.
     and_then
       (let aclresult = pg_proc_aclcheck env functionOid (GetUserId env) ACL_EXECUTE in
        if aclresult \<noteq> ACLCHECK_OK
        then raise (aclcheck_error env aclresult OBJECT_FUNCTION
                      (NameListToString env (functionName v)))
        else done_with ()) (\<lambda>_.
     let rettype = get_func_rettype env functionOid in
     and_then
       (let aclresult = pg_type_aclcheck env rettype (GetUserId env) ACL_USAGE in
        if aclresult \<noteq> ACLCHECK_OK
        then raise (aclcheck_error_type env aclresult rettype) else done_with ()) (\<lambda>_.
     and_then (if restrictionName v \<noteq> []
               then ValidateRestrictionEstimator env (restrictionName v)
               else done_with InvalidOid) (\<lambda>restrictionOid.
     and_then (if joinName v \<noteq> []
               then ValidateJoinEstimator env (joinName v)
               else done_with InvalidOid) (\<lambda>joinOid.
     OperatorCreate env
       \<lparr>oc_operatorName = oprName, oc_operatorNamespace = oprNamespace,
        oc_leftTypeId = typeId1, oc_rightTypeId = typeId2, oc_procedureId = functionOid,
        oc_commutatorName = commutatorName v, oc_negatorName = negatorName v,
        oc_restrictionId = restrictionOid, oc_joinId = joinOid,
        oc_canMerge = canMerge v, oc_canHash = canHash v\<rparr> s)))))))"

text \<open>
  Lines 157 to 186: the function must be named, the type names are resolved, and the
  right operand type must be there.
\<close>

definition DefineOperator_checked ::
  "'s collaborators \<Rightarrow> Oid \<Rightarrow> string \<Rightarrow> DefineOperator_vars \<Rightarrow> 's \<Rightarrow>
     (ObjectAddress \<times> 's) run" where
  "DefineOperator_checked env oprNamespace oprName v s =
    (if functionName v = []
     then raise (ereport ERROR ERRCODE_INVALID_FUNCTION_DEFINITION
                   ''operator function must be specified'' [])
     else
     and_then (lift (DefineOperator_typeId env (typeName1 v))) (\<lambda>typeId1.
     and_then (lift (DefineOperator_typeId env (typeName2 v))) (\<lambda>typeId2.
     if \<not> OidIsValid typeId1 \<and> \<not> OidIsValid typeId2
     then raise (ereport ERROR ERRCODE_INVALID_FUNCTION_DEFINITION
                   ''operator argument types must be specified'' [])
     else if \<not> OidIsValid typeId2
     then raise (ErrorData ERROR ERRCODE_INVALID_FUNCTION_DEFINITION
                   ''operator right argument type must be specified'' []
                   (Some ''Postfix operators are not supported.''))
     else
     DefineOperator_create env oprNamespace oprName v typeId1 typeId2 s)))"

definition DefineOperator ::
  "'s collaborators \<Rightarrow> string list \<Rightarrow> DefElem list \<Rightarrow> 's \<Rightarrow> (ObjectAddress \<times> 's) run" where
  "DefineOperator env opr_names parameters s =
     and_then (lift (QualifiedNameGetCreationNamespace env opr_names)) (\<lambda>(oprNamespace, oprName).
     and_then
       (let aclresult = pg_namespace_aclcheck env oprNamespace (GetUserId env) ACL_CREATE in
        if aclresult \<noteq> ACLCHECK_OK
        then raise (aclcheck_error env aclresult OBJECT_SCHEMA
                      (get_namespace_name env oprNamespace))
        else done_with ()) (\<lambda>_.
     and_then (DefineOperator_foreach env DefineOperator_init parameters) (\<lambda>v.
     DefineOperator_checked env oprNamespace oprName v s)))"

subsection \<open>RemoveOperatorById\<close>

text \<open>
  The calls into the system cache and the catalog are events of the run; what they
  answer and what they do to the catalog is the collaborators' business.
\<close>

definition SearchSysCache1 :: "'s collaborators \<Rightarrow> 's \<Rightarrow> Oid \<Rightarrow> HeapTuple option run" where
  "SearchSysCache1 env s key1 =
     and_then (emit (SearchSysCache1_call key1)) (\<lambda>_. done_with (syscache_OPEROID env s key1))"

definition ReleaseSysCache :: "HeapTuple \<Rightarrow> unit run" where
  "ReleaseSysCache tup = emit (ReleaseSysCache_call (t_self tup))"

definition OperatorUpd ::
  "'s collaborators \<Rightarrow> Oid \<Rightarrow> Oid \<Rightarrow> Oid \<Rightarrow> bool \<Rightarrow> 's \<Rightarrow> 's run" where
  "OperatorUpd env baseId commId negId isDelete s =
     and_then (emit (OperatorUpd_call baseId commId negId isDelete))
       (\<lambda>_. lift (c_OperatorUpd env baseId commId negId isDelete s))"

definition CatalogTupleDelete :: "'s collaborators \<Rightarrow> ItemPointerData \<Rightarrow> 's \<Rightarrow> 's run" where
  "CatalogTupleDelete env tid s =
     and_then (emit (CatalogTupleDelete_call tid)) (\<lambda>_. lift (c_CatalogTupleDelete env tid s))"

definition CatalogTupleUpdate ::
  "'s collaborators \<Rightarrow> ItemPointerData \<Rightarrow> HeapTuple \<Rightarrow> 's \<Rightarrow> 's run" where
  "CatalogTupleUpdate env otid tup s =
     and_then (emit (CatalogTupleUpdate_call otid tup))
       (\<lambda>_. lift (c_CatalogTupleUpdate env otid tup s))"

definition cache_lookup_failed :: "Oid \<Rightarrow> ErrorData" where
  "cache_lookup_failed operOid =
     elog ERROR ''cache lookup failed for operator %u'' [fmt_u operOid]"

text \<open>
  \<open>op\<close> points into the tuple of the first fetch, so the test for a self-commutator
  or self-negator after \<^verbatim>\<open>OperatorUpd\<close> reads the links as they were fetched.
\<close>

definition RemoveOperatorById :: "'s collaborators \<Rightarrow> Oid \<Rightarrow> 's \<Rightarrow> 's run" where
  "RemoveOperatorById env operOid s =
     and_then (SearchSysCache1 env s operOid) (\<lambda>fetched.
     case fetched of
       None \<Rightarrow> raise (cache_lookup_failed operOid)
     | Some tup \<Rightarrow>
         and_then
           (if OidIsValid (oprcom tup) \<or> OidIsValid (oprnegate tup)
            then
              and_then (OperatorUpd env operOid (oprcom tup) (oprnegate tup) True s) (\<lambda>s1.
                if operOid = oprcom tup \<or> operOid = oprnegate tup
                then
                  and_then (ReleaseSysCache tup) (\<lambda>_.
                  and_then (SearchSysCache1 env s1 operOid) (\<lambda>refetched.
                  case refetched of
                    None \<Rightarrow> raise (cache_lookup_failed operOid)
                  | Some tup' \<Rightarrow> done_with (tup', s1)))
                else done_with (tup, s1))
            else done_with (tup, s))
           (\<lambda>(tup, s2).
              and_then (CatalogTupleDelete env (t_self tup) s2) (\<lambda>s3.
              and_then (ReleaseSysCache tup) (\<lambda>_. done_with s3))))"

subsection \<open>AlterOperator\<close>

record AlterOperator_vars = estimator_vars +
  updateRestriction :: bool
  updateJoin :: bool

definition AlterOperator_init :: AlterOperator_vars where
  "AlterOperator_init =
     \<lparr>restrictionName = [], joinName = [], updateRestriction = False, updateJoin = False\<rparr>"

text \<open>
  The body of the loop over the options (lines 439 to 480). The parameter is read
  before the name of the option is looked at.
\<close>

definition AlterOperator_defel ::
  "'s collaborators \<Rightarrow> AlterOperator_vars \<Rightarrow> DefElem \<Rightarrow> AlterOperator_vars run" where
  \<open>AlterOperator_defel env v defel =
     and_then (if arg defel = None then done_with []
               else lift (defGetQualifiedName env defel)) (\<lambda>param.
       if defname defel = ''restrict''
       then done_with (v\<lparr>restrictionName := param, updateRestriction := True\<rparr>)
       else if defname defel = ''join''
       then done_with (v\<lparr>joinName := param, updateJoin := True\<rparr>)
       else if defname defel = ''leftarg'' \<or> defname defel = ''rightarg'' \<or>
               defname defel = ''function'' \<or> defname defel = ''procedure'' \<or>
               defname defel = ''commutator'' \<or> defname defel = ''negator'' \<or>
               defname defel = ''hashes'' \<or> defname defel = ''merges''
       then raise (ereport ERROR ERRCODE_SYNTAX_ERROR
                     ''operator attribute "%s" cannot be changed'' [fmt_s (defname defel)])
       else raise (ereport ERROR ERRCODE_SYNTAX_ERROR
                     ''operator attribute "%s" not recognized'' [fmt_s (defname defel)]))\<close>

fun AlterOperator_foreach ::
  "'s collaborators \<Rightarrow> AlterOperator_vars \<Rightarrow> DefElem list \<Rightarrow> AlterOperator_vars run" where
  "AlterOperator_foreach env v [] = done_with v"
| "AlterOperator_foreach env v (defel # pl) =
     and_then (AlterOperator_defel env v defel) (\<lambda>v'. AlterOperator_foreach env v' pl)"

text \<open>Lines 500 to 520: the checks against the row as it is stored.\<close>

definition AlterOperator_checks :: "HeapTuple \<Rightarrow> Oid \<Rightarrow> Oid \<Rightarrow> unit run" where
  "AlterOperator_checks oprForm restrictionOid joinOid =
     (if \<not> (OidIsValid (oprleft oprForm) \<and> OidIsValid (oprright oprForm)) \<and> OidIsValid joinOid
      then raise (ereport ERROR ERRCODE_INVALID_FUNCTION_DEFINITION
                    ''only binary operators can have join selectivity'' [])
      else if oprresult oprForm \<noteq> BOOLOID \<and> OidIsValid restrictionOid
      then raise (ereport ERROR ERRCODE_INVALID_FUNCTION_DEFINITION
                    ''only boolean operators can have restriction selectivity'' [])
      else if oprresult oprForm \<noteq> BOOLOID \<and> OidIsValid joinOid
      then raise (ereport ERROR ERRCODE_INVALID_FUNCTION_DEFINITION
                    ''only boolean operators can have join selectivity'' [])
      else done_with ())"

text \<open>
  Lines 522 to 538: the three arrays handed to \<^verbatim>\<open>heap_modify_tuple\<close>. The loop sets
  every entry to zero or false; then at most two entries are assigned.
\<close>

definition AlterOperator_arrays ::
  "bool \<Rightarrow> Oid \<Rightarrow> bool \<Rightarrow> Oid \<Rightarrow> Datum list \<times> bool list \<times> bool list" where
  "AlterOperator_arrays updRestriction restrictionOid updJoin joinOid =
     (let values0 = replicate Natts_pg_operator (0 :: Datum);
          replaces0 = replicate Natts_pg_operator False;
          nulls = replicate Natts_pg_operator False;
          replaces1 = (if updRestriction
                       then replaces0[Anum_pg_operator_oprrest - 1 := True] else replaces0);
          values1 = (if updRestriction
                     then values0[Anum_pg_operator_oprrest - 1 := ObjectIdGetDatum restrictionOid]
                     else values0);
          replaces2 = (if updJoin
                       then replaces1[Anum_pg_operator_oprjoin - 1 := True] else replaces1);
          values2 = (if updJoin
                     then values1[Anum_pg_operator_oprjoin - 1 := ObjectIdGetDatum joinOid]
                     else values1)
      in (values2, nulls, replaces2))"

text \<open>
  Modelled from the spec: \<^verbatim>\<open>heap_modify_tuple\<close> (access/common/heaptuple.c) is not
  among the sources. The spec: apply only the fields explicitly marked for update;
  untouched fields must not be perturbed. Attribute \<open>i\<close> of the new tuple is the
  replacement where \<open>doReplace\<close> marks it and the old attribute elsewhere; the new
  tuple keeps the location of the old one.
\<close>

definition heap_modify_tuple ::
  "HeapTuple \<Rightarrow> Datum list \<Rightarrow> bool list \<Rightarrow> bool list \<Rightarrow> HeapTuple" where
  "heap_modify_tuple tuple replValues replIsnull doReplace =
     tuple\<lparr>t_values :=
             map (\<lambda>i. if doReplace ! i then replValues ! i else t_values tuple ! i)
               [0..<length (t_values tuple)],
           t_isnull :=
             map (\<lambda>i. if doReplace ! i then replIsnull ! i else t_isnull tuple ! i)
               [0..<length (t_isnull tuple)]\<rparr>"

text \<open>Lines 522 to 551: the update of the tuple, once every check has passed.\<close>

definition AlterOperator_update ::
  "'s collaborators \<Rightarrow> Oid \<Rightarrow> HeapTuple \<Rightarrow> AlterOperator_vars \<Rightarrow> Oid \<Rightarrow> Oid \<Rightarrow> 's \<Rightarrow>
     (ObjectAddress \<times> 's) run" where
  "AlterOperator_update env oprId tup v restrictionOid joinOid s =
     (case AlterOperator_arrays (updateRestriction v) restrictionOid (updateJoin v) joinOid of
        (vals, nulls, replaces) \<Rightarrow>
     let tup' = heap_modify_tuple tup vals nulls replaces in
     and_then (CatalogTupleUpdate env (t_self tup') tup' s) (\<lambda>s1.
     and_then (lift (makeOperatorDependencies env tup' True s1)) (\<lambda>(address, s2).
     and_then (lift (InvokeObjectPostAlterHook env oprId s2)) (\<lambda>s3.
     done_with (address, s3)))))"

definition AlterOperator ::
  "'s collaborators \<Rightarrow> AlterOperatorStmt \<Rightarrow> 's \<Rightarrow> (ObjectAddress \<times> 's) run" where
  "AlterOperator env stmt s =
     and_then (lift (LookupOperWithArgs env (opername stmt) False s)) (\<lambda>oprId.
     and_then (SearchSysCache1 env s oprId) (\<lambda>fetched.
     case fetched of
       None \<Rightarrow> raise (cache_lookup_failed oprId)
     | Some tup \<Rightarrow>
     and_then (AlterOperator_foreach env AlterOperator_init (options stmt)) (\<lambda>v.
     if \<not> pg_oper_ownercheck env s oprId (GetUserId env)
     then raise (aclcheck_error env ACLCHECK_NOT_OWNER OBJECT_OPERATOR (NameStr_oprname env tup))
     else
     and_then (if restrictionName v \<noteq> []
               then ValidateRestrictionEstimator env (restrictionName v)
               else done_with InvalidOid) (\<lambda>restrictionOid.
     and_then (if joinName v \<noteq> []
               then ValidateJoinEstimator env (joinName v)
               else done_with InvalidOid) (\<lambda>joinOid.
     and_then (AlterOperator_checks tup restrictionOid joinOid) (\<lambda>_.
     AlterOperator_update env oprId tup v restrictionOid joinOid s))))))"

subsection \<open>A sample catalog\<close>

text \<open>
  One concrete choice of collaborators, on which the commands are evaluated at concrete
  inputs. The state of the operator catalog is the list of its live tuples. The sample
  has a handful of functions and operators; every privilege check passes for the
  sample's user.
\<close>

definition sample_NameListToString :: "string list \<Rightarrow> string" where
  "sample_NameListToString ns =
     (case ns of [] \<Rightarrow> [] | n # rest \<Rightarrow> foldl (\<lambda>acc x. acc @ ''.'' @ x) n rest)"

text \<open>The functions of the sample: name, argument types, identifier, result type.\<close>

definition sample_procs :: "(string list \<times> Oid list \<times> Oid \<times> Oid) list" where
  "sample_procs =
     [([''int4eq''], [INT4OID, INT4OID], 65, BOOLOID),
      ([''int4pl''], [INT4OID, INT4OID], 177, INT4OID),
      ([''int4um''], [INT4OID], 212, INT4OID),
      ([''eqsel''], [INTERNALOID, OIDOID, INTERNALOID, INT4OID], 101, FLOAT8OID),
      ([''eqjoinsel''], [INTERNALOID, OIDOID, INTERNALOID, INT2OID, INTERNALOID], 105, FLOAT8OID),
      ([''oldjoinsel''], [INTERNALOID, OIDOID, INTERNALOID, INT2OID], 104, FLOAT8OID),
      ([''bothjoinsel''], [INTERNALOID, OIDOID, INTERNALOID, INT2OID, INTERNALOID], 115, FLOAT8OID),
      ([''bothjoinsel''], [INTERNALOID, OIDOID, INTERNALOID, INT2OID], 114, FLOAT8OID),
      ([''intjoinsel''], [INTERNALOID, OIDOID, INTERNALOID, INT2OID], 124, INT4OID)]"

definition sample_func_exact_match :: "string list \<Rightarrow> Oid list \<Rightarrow> Oid" where
  "sample_func_exact_match funcname argtypes =
     (case find (\<lambda>(n, ts, _, _). n = funcname \<and> ts = argtypes) sample_procs of
        None \<Rightarrow> InvalidOid
      | Some (_, _, oid, _) \<Rightarrow> oid)"

definition sample_get_func_rettype :: "Oid \<Rightarrow> Oid" where
  "sample_get_func_rettype funcid =
     (case find (\<lambda>(_, _, oid, _). oid = funcid) sample_procs of
        None \<Rightarrow> InvalidOid
      | Some (_, _, _, rettype) \<Rightarrow> rettype)"

definition sample_requires_parameter :: "DefElem \<Rightarrow> ErrorData" where
  "sample_requires_parameter def =
     ereport ERROR ERRCODE_SYNTAX_ERROR ''%s requires a parameter'' [fmt_s (defname def)]"

definition sample_defGetTypeName :: "DefElem \<Rightarrow> ErrorData + TypeName" where
  "sample_defGetTypeName def =
     (case arg def of
        None \<Rightarrow> Inl (sample_requires_parameter def)
      | Some (T_TypeName t) \<Rightarrow> Inr t
      | Some (T_String str) \<Rightarrow> Inr \<lparr>names = [str], setof = False\<rparr>
      | Some _ \<Rightarrow> Inl (ereport ERROR ERRCODE_SYNTAX_ERROR
                         ''argument of %s must be a type name'' [fmt_s (defname def)]))"

definition sample_defGetQualifiedName :: "DefElem \<Rightarrow> ErrorData + string list" where
  "sample_defGetQualifiedName def =
     (case arg def of
        None \<Rightarrow> Inl (sample_requires_parameter def)
      | Some (T_TypeName t) \<Rightarrow> Inr (names t)
      | Some (T_String str) \<Rightarrow> Inr [str]
      | Some (T_List l) \<Rightarrow> Inr l
      | Some _ \<Rightarrow> Inl (ereport ERROR ERRCODE_SYNTAX_ERROR
                         ''argument of %s must be a name'' [fmt_s (defname def)]))"

definition sample_defGetBoolean :: "DefElem \<Rightarrow> ErrorData + bool" where
  "sample_defGetBoolean def =
     (case arg def of
        None \<Rightarrow> Inr True
      | Some (T_Integer i) \<Rightarrow>
          (if i = 0 then Inr False else if i = 1 then Inr True
           else Inl (ereport ERROR ERRCODE_SYNTAX_ERROR
                       ''%s requires a Boolean value'' [fmt_s (defname def)]))
      | Some (T_String str) \<Rightarrow>
          (if str = ''true'' \<or> str = ''on'' then Inr True
           else if str = ''false'' \<or> str = ''off'' then Inr False
           else Inl (ereport ERROR ERRCODE_SYNTAX_ERROR
                       ''%s requires a Boolean value'' [fmt_s (defname def)]))
      | Some _ \<Rightarrow> Inl (ereport ERROR ERRCODE_SYNTAX_ERROR
                         ''%s requires a Boolean value'' [fmt_s (defname def)]))"

definition sample_typenameTypeId :: "TypeName \<Rightarrow> ErrorData + Oid" where
  \<open>sample_typenameTypeId t =
     (if names t = [''int4''] then Inr INT4OID
      else if names t = [''bool''] then Inr BOOLOID
      else Inl (ereport ERROR ERRCODE_UNDEFINED_OBJECT ''type "%s" does not exist''
                  [fmt_s (sample_NameListToString (names t))]))\<close>

text \<open>
  A row of the sample: location, identifier, operand types, result type, commutator,
  negator, underlying function and the two estimators. The name is a pointer, of no
  interest here; namespace 2200, owner 10, kind \<^verbatim>\<open>'b'\<close>.
\<close>

definition sample_row ::
  "nat \<Rightarrow> Oid \<Rightarrow> Oid \<Rightarrow> Oid \<Rightarrow> Oid \<Rightarrow> Oid \<Rightarrow> Oid \<Rightarrow> Oid \<Rightarrow> Oid \<Rightarrow> Oid \<Rightarrow> HeapTuple" where
  "sample_row tid oid l r res com neg code rest join =
     \<lparr>t_self = tid,
      t_values = [ObjectIdGetDatum oid, 0, 2200, 10, 98, 0, 0,
                  ObjectIdGetDatum l, ObjectIdGetDatum r, ObjectIdGetDatum res,
                  ObjectIdGetDatum com, ObjectIdGetDatum neg, ObjectIdGetDatum code,
                  ObjectIdGetDatum rest, ObjectIdGetDatum join],
      t_isnull = replicate 15 False\<rparr>"

text \<open>
  The operators of the sample: 500 is \<^verbatim>\<open>=\<close> on integers, its own commutator, with
  negator 501 and both estimators; 501 is \<^verbatim>\<open><>\<close>; 502 is the prefix minus, which is
  neither binary nor boolean; 503 and 504 are \<^verbatim>\<open><\<close> and \<^verbatim>\<open>>\<close>, commutators of each
  other; 505 is the binary plus, which is not boolean.
\<close>

definition sample_pg_operator :: "HeapTuple list" where
  "sample_pg_operator =
     [sample_row 1 500 INT4OID INT4OID BOOLOID 500 501 65 101 105,
      sample_row 2 501 INT4OID INT4OID BOOLOID 501 500 65 0 0,
      sample_row 3 502 InvalidOid INT4OID INT4OID 0 0 212 0 0,
      sample_row 4 503 INT4OID INT4OID BOOLOID 504 0 65 101 0,
      sample_row 5 504 INT4OID INT4OID BOOLOID 503 0 65 0 0,
      sample_row 6 505 INT4OID INT4OID INT4OID 0 0 177 0 0]"

definition sample_oid :: "HeapTuple \<Rightarrow> Oid" where
  "sample_oid tup = DatumGetObjectId (t_values tup ! 0)"

definition sample_syscache :: "HeapTuple list \<Rightarrow> Oid \<Rightarrow> HeapTuple option" where
  "sample_syscache s key1 = find (\<lambda>tup. sample_oid tup = key1) s"

definition sample_LookupOperWithArgs ::
  "ObjectWithArgs \<Rightarrow> bool \<Rightarrow> HeapTuple list \<Rightarrow> ErrorData + Oid" where
  "sample_LookupOperWithArgs oper noError s =
     (let found =
        (if objname oper = [''=''] then 500
         else if objname oper = [''<>''] then 501
         else if objname oper = [''-''] \<and> length (objargs oper) = 1 then 502
         else if objname oper = [''<''] then 503
         else if objname oper = [''>''] then 504
         else if objname oper = [''+''] then 505
         else InvalidOid)
      in if OidIsValid found \<or> noError then Inr found
         else Inl (ereport ERROR ERRCODE_UNDEFINED_FUNCTION ''operator does not exist: %s''
                     [fmt_s (sample_NameListToString (objname oper))]))"

definition sample_fresh_tid :: "HeapTuple list \<Rightarrow> ItemPointerData" where
  "sample_fresh_tid s = Suc (foldr max (map t_self s) 0)"

definition sample_tuple_gone :: ErrorData where
  "sample_tuple_gone = elog ERROR ''tuple already updated by self'' []"

text \<open>
  A tuple is updated by writing a new version at a new location; the old location is
  dead from then on, and an update or a delete aimed at a dead location fails.
\<close>

definition sample_CatalogTupleUpdate ::
  "ItemPointerData \<Rightarrow> HeapTuple \<Rightarrow> HeapTuple list \<Rightarrow> ErrorData + HeapTuple list" where
  "sample_CatalogTupleUpdate otid tup s =
     (if otid \<in> set (map t_self s)
      then Inr (map (\<lambda>old. if t_self old = otid then tup\<lparr>t_self := sample_fresh_tid s\<rparr> else old) s)
      else Inl sample_tuple_gone)"

definition sample_CatalogTupleDelete ::
  "ItemPointerData \<Rightarrow> HeapTuple list \<Rightarrow> ErrorData + HeapTuple list" where
  "sample_CatalogTupleDelete tid s =
     (if tid \<in> set (map t_self s)
      then Inr (filter (\<lambda>old. t_self old \<noteq> tid) s)
      else Inl sample_tuple_gone)"

text \<open>
  Modelled from the spec: \<^verbatim>\<open>OperatorUpd\<close> (catalog/pg_operator.c) is not among the
  sources. The spec: clear the reciprocal link(s) on the other side(s); when the
  operator is its own commutator or negator, the clear mutates the very row already
  fetched. On a delete, the commutator's row loses its commutator link if that link
  points at the operator being dropped, and the negator's row its negator link likewise.
\<close>

definition sample_clear_link ::
  "nat \<Rightarrow> Oid \<Rightarrow> Oid \<Rightarrow> HeapTuple list \<Rightarrow> ErrorData + HeapTuple list" where
  "sample_clear_link attnum baseId otherId s =
     (case sample_syscache s otherId of
        None \<Rightarrow> Inr s
      | Some tup \<Rightarrow>
          if OidIsValid otherId \<and> DatumGetObjectId (t_values tup ! (attnum - 1)) = baseId
          then sample_CatalogTupleUpdate (t_self tup)
                 (tup\<lparr>t_values := (t_values tup)[attnum - 1 := ObjectIdGetDatum InvalidOid]\<rparr>) s
          else Inr s)"

definition sample_OperatorUpd ::
  "Oid \<Rightarrow> Oid \<Rightarrow> Oid \<Rightarrow> bool \<Rightarrow> HeapTuple list \<Rightarrow> ErrorData + HeapTuple list" where
  "sample_OperatorUpd baseId commId negId isDelete s =
     (if isDelete
      then (case sample_clear_link Anum_pg_operator_oprcom baseId commId s of
              Inl e \<Rightarrow> Inl e
            | Inr s1 \<Rightarrow> sample_clear_link Anum_pg_operator_oprnegate baseId negId s1)
      else Inr s)"

definition sample_address :: "Oid \<Rightarrow> ObjectAddress" where
  "sample_address oid = \<lparr>classId = 2617, objectId = oid, objectSubId = 0\<rparr>"

definition sample_OperatorCreate ::
  "OperatorCreate_args \<Rightarrow> HeapTuple list \<Rightarrow> ErrorData + ObjectAddress \<times> HeapTuple list" where
  "sample_OperatorCreate a s =
     Inr (sample_address 600,
          s @ [sample_row (sample_fresh_tid s) 600 (oc_leftTypeId a) (oc_rightTypeId a)
                 (sample_get_func_rettype (oc_procedureId a)) 0 0 (oc_procedureId a)
                 (oc_restrictionId a) (oc_joinId a)])"

definition sample_env :: "HeapTuple list collaborators" where
  "sample_env =
     \<lparr>GetUserId = 10,
      NameListToString = sample_NameListToString,
      QualifiedNameGetCreationNamespace = (\<lambda>ns. Inr (2200, last ns)),
      get_namespace_name = (\<lambda>_. ''public''),
      pg_namespace_aclcheck = (\<lambda>_ _ _. ACLCHECK_OK),
      pg_type_aclcheck = (\<lambda>_ _ _. ACLCHECK_OK),
      pg_proc_aclcheck = (\<lambda>_ _ _. ACLCHECK_OK),
      aclcheck_error = (\<lambda>_ _ n. ereport ERROR ERRCODE_INSUFFICIENT_PRIVILEGE
                                  ''permission denied for %s'' [fmt_s n]),
      aclcheck_error_type = (\<lambda>_ t. ereport ERROR ERRCODE_INSUFFICIENT_PRIVILEGE
                                     ''permission denied for type %u'' [fmt_u t]),
      defGetTypeName = sample_defGetTypeName,
      defGetQualifiedName = sample_defGetQualifiedName,
      defGetBoolean = sample_defGetBoolean,
      typenameTypeId = sample_typenameTypeId,
      func_exact_match = sample_func_exact_match,
      get_func_rettype = sample_get_func_rettype,
      c_OperatorCreate = sample_OperatorCreate,
      LookupOperWithArgs = sample_LookupOperWithArgs,
      syscache_OPEROID = sample_syscache,
      pg_oper_ownercheck = (\<lambda>s oid roleid.
         case sample_syscache s oid of
           None \<Rightarrow> False
         | Some tup \<Rightarrow> DatumGetObjectId (t_values tup ! 3) = roleid),
      NameStr_oprname = (\<lambda>_. ''operator''),
      c_OperatorUpd = sample_OperatorUpd,
      c_CatalogTupleDelete = sample_CatalogTupleDelete,
      c_CatalogTupleUpdate = sample_CatalogTupleUpdate,
      makeOperatorDependencies = (\<lambda>tup isUpdate s. Inr (sample_address (sample_oid tup), s)),
      InvokeObjectPostAlterHook = (\<lambda>_ s. Inr s)\<rparr>"

text \<open>Statements and options over the sample, for the evaluations below.\<close>

definition sample_option :: "string \<Rightarrow> string \<Rightarrow> DefElem" where
  "sample_option k val = \<lparr>defname = k, arg = Some (T_String val)\<rparr>"

definition sample_option_none :: "string \<Rightarrow> DefElem" where
  "sample_option_none k = \<lparr>defname = k, arg = None\<rparr>"

definition sample_alter :: "string \<Rightarrow> nat \<Rightarrow> DefElem list \<Rightarrow> AlterOperatorStmt" where
  "sample_alter opr nargs opts =
     \<lparr>opername = \<lparr>objname = [opr],
                   objargs = replicate nargs \<lparr>names = [''int4''], setof = False\<rparr>\<rparr>,
      options = opts\<rparr>"

definition sample_type_option :: "string \<Rightarrow> string \<Rightarrow> DefElem" where
  "sample_type_option k ty = \<lparr>defname = k, arg = Some (T_TypeName \<lparr>names = [ty], setof = False\<rparr>)\<rparr>"

subsection \<open>Notions used in the statements\<close>

text \<open>The two signatures that a join estimator may have: the current one and the old one.\<close>

definition join_sig5 :: "Oid list" where
  "join_sig5 = [INTERNALOID, OIDOID, INTERNALOID, INT2OID, INTERNALOID]"

definition join_sig4 :: "Oid list" where
  "join_sig4 = [INTERNALOID, OIDOID, INTERNALOID, INT2OID]"

text \<open>
  A tuple of pg_operator has all the attributes of the relation's descriptor.
\<close>

definition pg_operator_tuple :: "HeapTuple \<Rightarrow> bool" where
  "pg_operator_tuple tup =
     (length (t_values tup) = Natts_pg_operator \<and> length (t_isnull tup) = Natts_pg_operator)"

text \<open>
  The invariants I4 and I5 of the spec, on a stored row: a restriction estimator only on
  a boolean operator; a join estimator only on a boolean operator with a left operand.
\<close>

definition inv_I4 :: "HeapTuple \<Rightarrow> bool" where
  "inv_I4 tup = (OidIsValid (oprrest tup) \<longrightarrow> oprresult tup = BOOLOID)"

definition inv_I5 :: "HeapTuple \<Rightarrow> bool" where
  "inv_I5 tup =
     (OidIsValid (oprjoin tup) \<longrightarrow> oprresult tup = BOOLOID \<and> OidIsValid (oprleft tup))"

text \<open>
  A run of \<^verbatim>\<open>AlterOperator\<close> reaches the checks of lines 500 to 520 when the operator
  is found, its row is fetched, the loop over the options ends with the variables \<open>v\<close>,
  the caller owns the operator, and the estimators that were named are validated, with
  the identifiers \<open>restrictionOid\<close> and \<open>joinOid\<close> (\<open>InvalidOid\<close> for one that was not
  named).
\<close>

definition AlterOperator_reaches_checks ::
  "'s collaborators \<Rightarrow> AlterOperatorStmt \<Rightarrow> 's \<Rightarrow> Oid \<Rightarrow> HeapTuple \<Rightarrow> AlterOperator_vars \<Rightarrow>
     Oid \<Rightarrow> Oid \<Rightarrow> bool" where
  "AlterOperator_reaches_checks env stmt s oprId tup v restrictionOid joinOid =
     (LookupOperWithArgs env (opername stmt) False s = Inr oprId \<and>
      syscache_OPEROID env s oprId = Some tup \<and>
      snd (AlterOperator_foreach env AlterOperator_init (options stmt)) = Inr v \<and>
      pg_oper_ownercheck env s oprId (GetUserId env) \<and>
      snd (if restrictionName v \<noteq> []
           then ValidateRestrictionEstimator env (restrictionName v)
           else done_with InvalidOid) = Inr restrictionOid \<and>
      snd (if joinName v \<noteq> []
           then ValidateJoinEstimator env (joinName v)
           else done_with InvalidOid) = Inr joinOid)"

text \<open>The names of the options that \<^verbatim>\<open>AlterOperator\<close> refuses to change (lines 462 to 469).\<close>

definition AlterOperator_immutable :: "string \<Rightarrow> bool" where
  "AlterOperator_immutable k =
     (k \<in> set [''leftarg'', ''rightarg'', ''function'', ''procedure'', ''commutator'',
               ''negator'', ''hashes'', ''merges''])"

text \<open>The names of the options that \<^verbatim>\<open>DefineOperator\<close> knows (lines 105 to 146).\<close>

definition DefineOperator_recognized :: "string \<Rightarrow> bool" where
  "DefineOperator_recognized k =
     (k \<in> set [''leftarg'', ''rightarg'', ''function'', ''procedure'', ''commutator'',
               ''negator'', ''restrict'', ''join'', ''hashes'', ''merges'',
               ''sort1'', ''sort2'', ''ltcmp'', ''gtcmp''])"

text \<open>The two reports about an option, with the level at which they are made.\<close>

definition not_recognized :: "elevel \<Rightarrow> string \<Rightarrow> ErrorData" where
  \<open>not_recognized lev k =
     ereport lev ERRCODE_SYNTAX_ERROR ''operator attribute "%s" not recognized'' [fmt_s k]\<close>

definition cannot_be_changed :: "string \<Rightarrow> ErrorData" where
  \<open>cannot_be_changed k =
     ereport ERROR ERRCODE_SYNTAX_ERROR ''operator attribute "%s" cannot be changed'' [fmt_s k]\<close>

text \<open>The events that are function lookups.\<close>

definition is_lookup_call :: "event \<Rightarrow> bool" where
  "is_lookup_call ev = (case ev of LookupFuncName_call _ _ _ _ \<Rightarrow> True | _ \<Rightarrow> False)"


text \<open>
  A run of \<^verbatim>\<open>DefineOperator\<close> reaches the checks of the operand types (lines 178 to
  186) when the name is resolved, to \<open>oprNamespace\<close> and \<open>oprName\<close>, and the caller may
  create in that namespace, the loop over
  the definition list ends with the events \<open>ws\<close> and the variables \<open>v\<close>, a function
  is named, and the type names that were given resolve, with the identifiers \<open>typeId1\<close>
  and \<open>typeId2\<close> (\<open>InvalidOid\<close> for one that was not given).
\<close>

definition DefineOperator_reaches_types ::
  "'s collaborators \<Rightarrow> string list \<Rightarrow> DefElem list \<Rightarrow> Oid \<Rightarrow> string \<Rightarrow> event list \<Rightarrow>
     DefineOperator_vars \<Rightarrow> Oid \<Rightarrow> Oid \<Rightarrow> bool" where
  "DefineOperator_reaches_types env opr_names parameters oprNamespace oprName ws v
       typeId1 typeId2 =
     (QualifiedNameGetCreationNamespace env opr_names = Inr (oprNamespace, oprName) \<and>
      pg_namespace_aclcheck env oprNamespace (GetUserId env) ACL_CREATE = ACLCHECK_OK \<and>
      DefineOperator_foreach env DefineOperator_init parameters = (ws, Inr v) \<and>
      functionName v \<noteq> [] \<and>
      DefineOperator_typeId env (typeName1 v) = Inr typeId1 \<and>
      DefineOperator_typeId env (typeName2 v) = Inr typeId2)"

text \<open>The privilege checks on the operand types that were given (lines 188 to 200).\<close>

definition DefineOperator_types_usable ::
  "'s collaborators \<Rightarrow> DefineOperator_vars \<Rightarrow> Oid \<Rightarrow> Oid \<Rightarrow> bool" where
  "DefineOperator_types_usable env v typeId1 typeId2 =
     ((typeName1 v = None \<or> pg_type_aclcheck env typeId1 (GetUserId env) ACL_USAGE = ACLCHECK_OK) \<and>
      (typeName2 v = None \<or> pg_type_aclcheck env typeId2 (GetUserId env) ACL_USAGE = ACLCHECK_OK))"

text \<open>
  The local variable that an option of \<^verbatim>\<open>DefineOperator\<close> assigns, numbered in the
  order of the declarations (9 for an option that assigns none), and the value of that
  variable.
\<close>

definition DefineOperator_slot :: "string \<Rightarrow> nat" where
  "DefineOperator_slot k =
     (if k = ''merges'' \<or> k = ''sort1'' \<or> k = ''sort2'' \<or> k = ''ltcmp'' \<or> k = ''gtcmp'' then 0
      else if k = ''hashes'' then 1
      else if k = ''function'' \<or> k = ''procedure'' then 2
      else if k = ''leftarg'' then 3
      else if k = ''rightarg'' then 4
      else if k = ''commutator'' then 5
      else if k = ''negator'' then 6
      else if k = ''restrict'' then 7
      else if k = ''join'' then 8
      else 9)"

datatype slot_value = Flag bool | Name_of "string list" | Type_of "TypeName option" | No_slot

definition DefineOperator_slot_value :: "nat \<Rightarrow> DefineOperator_vars \<Rightarrow> slot_value" where
  "DefineOperator_slot_value n v =
     (if n = 0 then Flag (canMerge v)
      else if n = 1 then Flag (canHash v)
      else if n = 2 then Name_of (functionName v)
      else if n = 3 then Type_of (typeName1 v)
      else if n = 4 then Type_of (typeName2 v)
      else if n = 5 then Name_of (commutatorName v)
      else if n = 6 then Name_of (negatorName v)
      else if n = 7 then Name_of (restrictionName v)
      else if n = 8 then Name_of (joinName v)
      else No_slot)"

text \<open>The obsolete options that stand for \<^verbatim>\<open>merges\<close> (lines 139 to 146).\<close>

definition DefineOperator_merge_alias :: "string \<Rightarrow> bool" where
  "DefineOperator_merge_alias k = (k \<in> set [''sort1'', ''sort2'', ''ltcmp'', ''gtcmp''])"

text \<open>The three reports of lines 160 to 186.\<close>

definition function_must_be_specified :: ErrorData where
  "function_must_be_specified =
     ereport ERROR ERRCODE_INVALID_FUNCTION_DEFINITION ''operator function must be specified'' []"

definition types_must_be_specified :: ErrorData where
  "types_must_be_specified =
     ereport ERROR ERRCODE_INVALID_FUNCTION_DEFINITION
       ''operator argument types must be specified'' []"

definition right_type_must_be_specified :: ErrorData where
  "right_type_must_be_specified =
     ErrorData ERROR ERRCODE_INVALID_FUNCTION_DEFINITION
       ''operator right argument type must be specified'' []
       (Some ''Postfix operators are not supported.'')"

section \<open>Properties\<close>

subsection \<open>Runs\<close>

lemmas run_defs = and_then_def done_with_def raise_def emit_def lift_def

lemma and_then_done [simp]: "and_then (done_with x) f = f x"
  by (simp add: run_defs split: prod.splits)

lemma and_then_raise [simp]: "and_then (raise e) f = raise e"
  by (simp add: run_defs)

lemma snd_raise [simp]: "snd (raise e) = Inl e"
  by (simp add: raise_def)

lemma snd_done [simp]: "snd (done_with x) = Inr x"
  by (simp add: done_with_def)

lemma fst_raise [simp]: "fst (raise e) = []"
  by (simp add: raise_def)

lemma fst_done [simp]: "fst (done_with x) = []"
  by (simp add: done_with_def)

lemma snd_lift [simp]: "snd (lift r) = r"
  by (simp add: lift_def)

lemma fst_lift [simp]: "fst (lift r) = []"
  by (simp add: lift_def)

lemma snd_emit [simp]: "snd (emit ev) = Inr ()"
  by (simp add: emit_def)

lemma fst_emit [simp]: "fst (emit ev) = [ev]"
  by (simp add: emit_def)

lemma snd_and_then:
  "snd (and_then m f) = (case snd m of Inl e \<Rightarrow> Inl e | Inr x \<Rightarrow> snd (f x))"
  by (cases m) (simp add: and_then_def split: sum.splits prod.splits)

lemma fst_and_then:
  "fst (and_then m f) = (case snd m of Inl e \<Rightarrow> fst m | Inr x \<Rightarrow> fst m @ fst (f x))"
  by (cases m) (simp add: and_then_def split: sum.splits prod.splits)

lemmas oid_defs = InvalidOid_def OidIsValid_def BOOLOID_def INT2OID_def INT4OID_def
  OIDOID_def FLOAT8OID_def INTERNALOID_def

lemmas sample_proc_defs = sample_env_def sample_func_exact_match_def
  sample_get_func_rettype_def sample_procs_def sample_NameListToString_def

lemmas storage_defs = SearchSysCache1_def ReleaseSysCache_def OperatorUpd_def
  CatalogTupleDelete_def CatalogTupleUpdate_def

lemmas attr_defs = oprleft_def oprright_def oprresult_def oprcom_def oprnegate_def
  oprrest_def oprjoin_def DatumGetObjectId_def ObjectIdGetDatum_def
  Natts_pg_operator_def Anum_pg_operator_oprname_def Anum_pg_operator_oprleft_def
  Anum_pg_operator_oprright_def Anum_pg_operator_oprresult_def Anum_pg_operator_oprcom_def
  Anum_pg_operator_oprnegate_def Anum_pg_operator_oprrest_def Anum_pg_operator_oprjoin_def

lemmas sample_storage_defs = sample_pg_operator_def sample_row_def
  sample_syscache_def sample_oid_def sample_OperatorUpd_def sample_clear_link_def
  sample_CatalogTupleUpdate_def sample_CatalogTupleDelete_def sample_fresh_tid_def
  sample_tuple_gone_def

subsection \<open>Function lookup\<close>

lemma snd_LookupFuncName:
  "snd (LookupFuncName env f n ts ok) =
     (if OidIsValid (func_exact_match env f (take n ts))
      then Inr (func_exact_match env f (take n ts))
      else if ok then Inr InvalidOid
      else Inl (ereport ERROR ERRCODE_UNDEFINED_FUNCTION ''function %s does not exist''
                  [fmt_signature f n (take n ts)]))"
  by (simp add: LookupFuncName_def Let_def snd_and_then)

lemma fst_LookupFuncName:
  "fst (LookupFuncName env f n ts ok) = [LookupFuncName_call f n (take n ts) ok]"
  by (simp add: LookupFuncName_def Let_def fst_and_then)

subsection \<open>The join estimator\<close>

text \<open>
  C1, as the source has it. \<^verbatim>\<open>ValidateJoinEstimator\<close> always looks the name up
  under both signatures, first with five arguments, then with four. If only the old
  signature with four arguments matches, that function is the one chosen; it is returned
  if it returns float8 and the caller may execute it, and otherwise the check that fails
  reports its error. If both signatures match, the error is
  \<^verbatim>\<open>ERRCODE_AMBIGUOUS_FUNCTION\<close>. If neither matches, the error is
  \<^verbatim>\<open>ERRCODE_UNDEFINED_FUNCTION\<close>, and it names the signature with five arguments.
\<close>

theorem ValidateJoinEstimator_resolution:
  "(\<exists>rest. fst (ValidateJoinEstimator env jn) =
            LookupFuncName_call jn 5 join_sig5 True # LookupFuncName_call jn 4 join_sig4 True # rest)
   \<and> (\<not> OidIsValid (func_exact_match env jn join_sig5) \<and>
        OidIsValid (func_exact_match env jn join_sig4) \<longrightarrow>
           snd (ValidateJoinEstimator env jn) =
             (if get_func_rettype env (func_exact_match env jn join_sig4) \<noteq> FLOAT8OID
              then Inl (ereport ERROR ERRCODE_INVALID_OBJECT_DEFINITION
                        ''join estimator function %s must return type %s''
                        [fmt_s (NameListToString env jn), fmt_s ''float8''])
              else if pg_proc_aclcheck env (func_exact_match env jn join_sig4) (GetUserId env)
                        ACL_EXECUTE \<noteq> ACLCHECK_OK
              then Inl (aclcheck_error env
                          (pg_proc_aclcheck env (func_exact_match env jn join_sig4) (GetUserId env)
                             ACL_EXECUTE)
                          OBJECT_FUNCTION (NameListToString env jn))
              else Inr (func_exact_match env jn join_sig4)))
   \<and> (OidIsValid (func_exact_match env jn join_sig5) \<and>
        OidIsValid (func_exact_match env jn join_sig4) \<longrightarrow>
           snd (ValidateJoinEstimator env jn) =
             Inl (ereport ERROR ERRCODE_AMBIGUOUS_FUNCTION
                    ''join estimator function %s has multiple matches''
                    [fmt_s (NameListToString env jn)]))
   \<and> (\<not> OidIsValid (func_exact_match env jn join_sig5) \<and>
        \<not> OidIsValid (func_exact_match env jn join_sig4) \<longrightarrow>
           snd (ValidateJoinEstimator env jn) =
             Inl (ereport ERROR ERRCODE_UNDEFINED_FUNCTION ''function %s does not exist''
                    [fmt_signature jn 5 join_sig5]))"
  unfolding join_sig5_def join_sig4_def
  by (simp add: ValidateJoinEstimator_def Let_def snd_and_then fst_and_then
        snd_LookupFuncName fst_LookupFuncName OidIsValid_def split: sum.splits)

text \<open>
  The three cases in the sample catalog: \<^verbatim>\<open>oldjoinsel\<close> exists with four arguments
  only, \<^verbatim>\<open>bothjoinsel\<close> with four and with five, \<^verbatim>\<open>nosuchsel\<close> not at all.
\<close>

theorem ValidateJoinEstimator_resolution_witness:
  "snd (ValidateJoinEstimator sample_env [''oldjoinsel'']) = Inr 104
   \<and> snd (ValidateJoinEstimator sample_env [''bothjoinsel'']) =
        Inl (ereport ERROR ERRCODE_AMBIGUOUS_FUNCTION
               ''join estimator function %s has multiple matches'' [fmt_s ''bothjoinsel''])
   \<and> snd (ValidateJoinEstimator sample_env [''nosuchsel'']) =
        Inl (ereport ERROR ERRCODE_UNDEFINED_FUNCTION ''function %s does not exist''
               [fmt_signature [''nosuchsel''] 5 join_sig5])"
  using ValidateJoinEstimator_resolution [of sample_env "[''oldjoinsel'']"]
        ValidateJoinEstimator_resolution [of sample_env "[''bothjoinsel'']"]
        ValidateJoinEstimator_resolution [of sample_env "[''nosuchsel'']"]
  by (simp add: join_sig5_def join_sig4_def sample_proc_defs oid_defs)

text \<open>
  C1 as the spec words it fails: \<^verbatim>\<open>intjoinsel\<close> matches the old signature and
  nothing else, but it returns an integer, and the validator rejects it.
\<close>

theorem ValidateJoinEstimator_legacy_only_counterexample:
  "\<not> OidIsValid (func_exact_match sample_env [''intjoinsel''] join_sig5) \<and>
   OidIsValid (func_exact_match sample_env [''intjoinsel''] join_sig4) \<and>
   snd (ValidateJoinEstimator sample_env [''intjoinsel'']) =
     Inl (ereport ERROR ERRCODE_INVALID_OBJECT_DEFINITION
            ''join estimator function %s must return type %s''
            [fmt_s ''intjoinsel'', fmt_s ''float8''])"
  by (simp add: ValidateJoinEstimator_def Let_def snd_and_then snd_LookupFuncName
        join_sig5_def join_sig4_def sample_proc_defs oid_defs)

subsection \<open>Alteration: auxiliary facts\<close>

lemma DatumGetObjectId_ObjectIdGetDatum [simp]: "DatumGetObjectId (ObjectIdGetDatum x) = x"
  by (simp add: DatumGetObjectId_def ObjectIdGetDatum_def ucast_up_ucast_id is_up)

lemma fst_AlterOperator_defel: "fst (AlterOperator_defel env v d) = []"
  by (simp add: AlterOperator_defel_def fst_and_then split: sum.splits)

lemma fst_AlterOperator_foreach: "fst (AlterOperator_foreach env v ps) = []"
  by (induction ps arbitrary: v) (simp_all add: fst_and_then fst_AlterOperator_defel split: sum.splits)

lemma ValidateRestrictionEstimator_valid:
  "snd (ValidateRestrictionEstimator env n) = Inr oid \<Longrightarrow> OidIsValid oid"
  by (auto simp: ValidateRestrictionEstimator_def Let_def snd_and_then snd_LookupFuncName
      split: sum.splits if_splits)

lemma ValidateJoinEstimator_valid:
  "snd (ValidateJoinEstimator env n) = Inr oid \<Longrightarrow> OidIsValid oid"
  by (auto simp: ValidateJoinEstimator_def Let_def snd_and_then snd_LookupFuncName
      split: sum.splits if_splits)

lemma ValidateRestrictionEstimator_events:
  "ev \<in> set (fst (ValidateRestrictionEstimator env n)) \<Longrightarrow> is_lookup_call ev"
  by (auto simp: ValidateRestrictionEstimator_def Let_def fst_and_then fst_LookupFuncName
      is_lookup_call_def split: sum.splits if_splits)

lemma ValidateJoinEstimator_events:
  "ev \<in> set (fst (ValidateJoinEstimator env n)) \<Longrightarrow> is_lookup_call ev"
  by (auto simp: ValidateJoinEstimator_def Let_def fst_and_then fst_LookupFuncName
      is_lookup_call_def split: sum.splits if_splits)

lemma AlterOperator_reached:
  "AlterOperator_reaches_checks env stmt s oprId tup v rOid jOid \<Longrightarrow>
   snd (AlterOperator env stmt s) =
     (case snd (AlterOperator_checks tup rOid jOid) of
        Inl e \<Rightarrow> Inl e
      | Inr _ \<Rightarrow> snd (AlterOperator_update env oprId tup v rOid jOid s))"
  by (simp add: AlterOperator_reaches_checks_def AlterOperator_def snd_and_then
      SearchSysCache1_def split: sum.splits)

lemma AlterOperator_success:
  "snd (AlterOperator env stmt s) = Inr r \<Longrightarrow>
   \<exists>oprId tup v rOid jOid.
     AlterOperator_reaches_checks env stmt s oprId tup v rOid jOid \<and>
     snd (AlterOperator_checks tup rOid jOid) = Inr () \<and>
     snd (AlterOperator_update env oprId tup v rOid jOid s) = Inr r"
  by (auto simp: AlterOperator_reaches_checks_def AlterOperator_def snd_and_then
      SearchSysCache1_def split: sum.splits option.splits if_splits)

lemma fst_AlterOperator_update:
  "fst (AlterOperator_update env oprId tup v rOid jOid s) =
     [CatalogTupleUpdate_call (t_self tup)
        (case AlterOperator_arrays (updateRestriction v) rOid (updateJoin v) jOid of
           (vals, nulls, replaces) \<Rightarrow> heap_modify_tuple tup vals nulls replaces)]"
  by (simp add: AlterOperator_update_def CatalogTupleUpdate_def fst_and_then Let_def
      heap_modify_tuple_def split: sum.splits prod.splits)

lemma fst_AlterOperator_checks: "fst (AlterOperator_checks tup rOid jOid) = []"
  by (simp add: AlterOperator_checks_def)

lemma not_lookup_update [simp]: "\<not> is_lookup_call (CatalogTupleUpdate_call otid new)"
  by (simp add: is_lookup_call_def)

lemma AlterOperator_update_event:
  assumes "CatalogTupleUpdate_call otid new \<in> set (fst (AlterOperator env stmt s))"
  shows "\<exists>oprId tup v rOid jOid.
     AlterOperator_reaches_checks env stmt s oprId tup v rOid jOid \<and>
     snd (AlterOperator_checks tup rOid jOid) = Inr () \<and>
     otid = t_self tup \<and>
     new = (case AlterOperator_arrays (updateRestriction v) rOid (updateJoin v) jOid of
              (vals, nulls, replaces) \<Rightarrow> heap_modify_tuple tup vals nulls replaces)"
  using assms
  by (auto simp: AlterOperator_reaches_checks_def AlterOperator_def snd_and_then fst_and_then
      SearchSysCache1_def fst_AlterOperator_foreach fst_AlterOperator_checks
      fst_AlterOperator_update
      split: sum.splits option.splits if_splits
      dest: ValidateRestrictionEstimator_events ValidateJoinEstimator_events)


lemma AlterOperator_arrays_replaces:
  "AlterOperator_arrays ur rOid uj jOid = (vals, nulls, replaces) \<Longrightarrow>
   length vals = Natts_pg_operator \<and> length nulls = Natts_pg_operator \<and>
   length replaces = Natts_pg_operator \<and>
   (\<forall>i < Natts_pg_operator.
      nulls ! i = False \<and>
      replaces ! i = ((ur \<and> i = Anum_pg_operator_oprrest - 1) \<or>
                      (uj \<and> i = Anum_pg_operator_oprjoin - 1)) \<and>
      (ur \<and> i = Anum_pg_operator_oprrest - 1 \<longrightarrow> vals ! i = ObjectIdGetDatum rOid) \<and>
      (uj \<and> i = Anum_pg_operator_oprjoin - 1 \<longrightarrow> vals ! i = ObjectIdGetDatum jOid))"
  by (cases ur; cases uj)
     (auto simp: AlterOperator_arrays_def Let_def Natts_pg_operator_def
        Anum_pg_operator_oprrest_def Anum_pg_operator_oprjoin_def nth_list_update
        split: if_splits)

lemma heap_modify_tuple_nth:
  "i < length (t_values tup) \<Longrightarrow>
   t_values (heap_modify_tuple tup vals nulls replaces) ! i =
     (if replaces ! i then vals ! i else t_values tup ! i)"
  "i < length (t_isnull tup) \<Longrightarrow>
   t_isnull (heap_modify_tuple tup vals nulls replaces) ! i =
     (if replaces ! i then nulls ! i else t_isnull tup ! i)"
  "length (t_values (heap_modify_tuple tup vals nulls replaces)) = length (t_values tup)"
  "length (t_isnull (heap_modify_tuple tup vals nulls replaces)) = length (t_isnull tup)"
  "t_self (heap_modify_tuple tup vals nulls replaces) = t_self tup"
  by (simp_all add: heap_modify_tuple_def)

lemma AlterOperator_new_tuple:
  assumes wf: "pg_operator_tuple tup"
    and new: "new = (case AlterOperator_arrays ur rOid uj jOid of
                (vals, nulls, replaces) \<Rightarrow> heap_modify_tuple tup vals nulls replaces)"
  shows "t_self new = t_self tup"
    and "pg_operator_tuple new"
    and "\<And>i. i < Natts_pg_operator \<Longrightarrow>
           t_values new ! i =
             (if ur \<and> i = Anum_pg_operator_oprrest - 1 then ObjectIdGetDatum rOid
              else if uj \<and> i = Anum_pg_operator_oprjoin - 1 then ObjectIdGetDatum jOid
              else t_values tup ! i)"
    and "\<And>i. i < Natts_pg_operator \<Longrightarrow>
           t_isnull new ! i =
             (if (ur \<and> i = Anum_pg_operator_oprrest - 1) \<or> (uj \<and> i = Anum_pg_operator_oprjoin - 1)
              then False else t_isnull tup ! i)"
proof -
  obtain vals nulls replaces where
    arr: "AlterOperator_arrays ur rOid uj jOid = (vals, nulls, replaces)"
    by (cases "AlterOperator_arrays ur rOid uj jOid") auto
  note facts = AlterOperator_arrays_replaces [OF arr]
  have new': "new = heap_modify_tuple tup vals nulls replaces"
    using new arr by simp
  show "t_self new = t_self tup"
    by (simp add: new' heap_modify_tuple_nth)
  show "pg_operator_tuple new"
    using wf by (simp add: new' pg_operator_tuple_def heap_modify_tuple_nth)
  show "t_values new ! i =
             (if ur \<and> i = Anum_pg_operator_oprrest - 1 then ObjectIdGetDatum rOid
              else if uj \<and> i = Anum_pg_operator_oprjoin - 1 then ObjectIdGetDatum jOid
              else t_values tup ! i)" if "i < Natts_pg_operator" for i
    using that wf facts
    by (auto simp: new' pg_operator_tuple_def heap_modify_tuple_nth
        Anum_pg_operator_oprrest_def Anum_pg_operator_oprjoin_def)
  show "t_isnull new ! i =
             (if (ur \<and> i = Anum_pg_operator_oprrest - 1) \<or> (uj \<and> i = Anum_pg_operator_oprjoin - 1)
              then False else t_isnull tup ! i)" if "i < Natts_pg_operator" for i
    using that wf facts
    by (auto simp: new' pg_operator_tuple_def heap_modify_tuple_nth)
qed

lemma AlterOperator_new_tuple_fields:
  assumes wf: "pg_operator_tuple tup"
    and new: "new = (case AlterOperator_arrays ur rOid uj jOid of
                (vals, nulls, replaces) \<Rightarrow> heap_modify_tuple tup vals nulls replaces)"
  shows "oprleft new = oprleft tup" "oprright new = oprright tup"
    "oprresult new = oprresult tup" "oprcom new = oprcom tup" "oprnegate new = oprnegate tup"
    "oprrest new = (if ur then rOid else oprrest tup)"
    "oprjoin new = (if uj then jOid else oprjoin tup)"
  using AlterOperator_new_tuple(3) [OF wf new]
  by (simp_all add: oprleft_def oprright_def oprresult_def oprcom_def oprnegate_def
      oprrest_def oprjoin_def Natts_pg_operator_def Anum_pg_operator_oprleft_def
      Anum_pg_operator_oprright_def Anum_pg_operator_oprresult_def Anum_pg_operator_oprcom_def
      Anum_pg_operator_oprnegate_def Anum_pg_operator_oprrest_def Anum_pg_operator_oprjoin_def)


lemma snd_AlterOperator_defel:
  "snd (AlterOperator_defel env v d) = Inr v' \<Longrightarrow>
   (defname d = ''restrict'' \<and> updateRestriction v' \<and> updateJoin v' = updateJoin v \<and>
      joinName v' = joinName v \<and> (arg d = None \<longrightarrow> restrictionName v' = [])) \<or>
   (defname d = ''join'' \<and> updateJoin v' \<and> updateRestriction v' = updateRestriction v \<and>
      restrictionName v' = restrictionName v \<and> (arg d = None \<longrightarrow> joinName v' = []))"
  by (auto simp: AlterOperator_defel_def snd_and_then split: sum.splits if_splits)

lemma AlterOperator_foreach_vars:
  "snd (AlterOperator_foreach env v0 ps) = Inr v \<Longrightarrow>
     (\<forall>d \<in> set ps. defname d = ''restrict'' \<or> defname d = ''join'') \<and>
     updateRestriction v = (updateRestriction v0 \<or> (\<exists>d \<in> set ps. defname d = ''restrict'')) \<and>
     updateJoin v = (updateJoin v0 \<or> (\<exists>d \<in> set ps. defname d = ''join'')) \<and>
     ((\<forall>d \<in> set ps. defname d \<noteq> ''restrict'') \<longrightarrow> restrictionName v = restrictionName v0) \<and>
     ((\<forall>d \<in> set ps. defname d \<noteq> ''join'') \<longrightarrow> joinName v = joinName v0) \<and>
     (restrictionName v0 = [] \<and> (\<forall>d \<in> set ps. defname d = ''restrict'' \<longrightarrow> arg d = None)
        \<longrightarrow> restrictionName v = []) \<and>
     (joinName v0 = [] \<and> (\<forall>d \<in> set ps. defname d = ''join'' \<longrightarrow> arg d = None)
        \<longrightarrow> joinName v = [])"
proof (induction ps arbitrary: v0)
  case Nil
  then show ?case by simp
next
  case (Cons d ps)
  from Cons.prems obtain v1 where
    step: "snd (AlterOperator_defel env v0 d) = Inr v1" and
    rest: "snd (AlterOperator_foreach env v1 ps) = Inr v"
    by (auto simp: snd_and_then split: sum.splits)
  note ih = Cons.IH [OF rest]
  from snd_AlterOperator_defel [OF step] show ?case
  proof (elim disjE conjE)
    assume "defname d = ''restrict''" "updateRestriction v1" "updateJoin v1 = updateJoin v0"
      "joinName v1 = joinName v0" "arg d = None \<longrightarrow> restrictionName v1 = []"
    with ih show ?thesis by simp
  next
    assume "defname d = ''join''" "updateJoin v1" "updateRestriction v1 = updateRestriction v0"
      "restrictionName v1 = restrictionName v0" "arg d = None \<longrightarrow> joinName v1 = []"
    with ih show ?thesis by simp
  qed
qed

lemma AlterOperator_foreach_append:
  "snd (AlterOperator_foreach env v0 pre) = Inr v \<Longrightarrow>
   snd (AlterOperator_foreach env v0 (pre @ post)) = snd (AlterOperator_foreach env v post)"
  by (induction pre arbitrary: v0) (auto simp: snd_and_then split: sum.splits)


lemma AlterOperator_fails_before_checks:
  "snd (AlterOperator_foreach env AlterOperator_init (options stmt)) = Inl e' \<Longrightarrow>
   \<exists>e. snd (AlterOperator env stmt s) = Inl e"
  by (auto simp: AlterOperator_def snd_and_then SearchSysCache1_def
      split: sum.splits option.splits)

lemma AlterOperator_foreach_other_key:
  assumes "d \<in> set ps" "defname d \<noteq> ''restrict''" "defname d \<noteq> ''join''"
  shows "\<exists>e. snd (AlterOperator_foreach env v0 ps) = Inl e"
proof (cases "snd (AlterOperator_foreach env v0 ps)")
  case (Inl e)
  then show ?thesis by blast
next
  case (Inr v)
  from AlterOperator_foreach_vars [OF Inr] assms show ?thesis by blast
qed

lemma AlterOperator_checks_pass:
  "snd (AlterOperator_checks tup rOid jOid) = Inr u \<longleftrightarrow>
     (OidIsValid jOid \<longrightarrow> OidIsValid (oprleft tup) \<and> OidIsValid (oprright tup) \<and>
                           oprresult tup = BOOLOID) \<and>
     (OidIsValid rOid \<longrightarrow> oprresult tup = BOOLOID)"
  by (auto simp: AlterOperator_checks_def)

lemma reaches_estimators:
  assumes "AlterOperator_reaches_checks env stmt s oprId tup v rOid jOid"
  shows "OidIsValid rOid \<longleftrightarrow> restrictionName v \<noteq> []"
    and "OidIsValid jOid \<longleftrightarrow> joinName v \<noteq> []"
  using assms ValidateRestrictionEstimator_valid [of env "restrictionName v" rOid]
    ValidateJoinEstimator_valid [of env "joinName v" jOid]
  by (auto simp: AlterOperator_reaches_checks_def OidIsValid_def split: if_splits)

lemma reaches_unique:
  assumes "AlterOperator_reaches_checks env stmt s oprId tup v rOid jOid"
    and "LookupOperWithArgs env (opername stmt) False s = Inr oprId'"
    and "syscache_OPEROID env s oprId' = Some tup'"
  shows "oprId = oprId'" "tup = tup'"
  using assms by (auto simp: AlterOperator_reaches_checks_def)

lemma AlterOperator_new_tuple_eq:
  assumes wf: "pg_operator_tuple tup"
  shows "(case AlterOperator_arrays ur rOid uj jOid of
            (vals, nulls, replaces) \<Rightarrow> heap_modify_tuple tup vals nulls replaces) =
         tup\<lparr>t_values := (t_values tup)
                  [13 := (if ur then ObjectIdGetDatum rOid else t_values tup ! 13),
                   14 := (if uj then ObjectIdGetDatum jOid else t_values tup ! 14)],
              t_isnull := (t_isnull tup)
                  [13 := (if ur then False else t_isnull tup ! 13),
                   14 := (if uj then False else t_isnull tup ! 14)]\<rparr>"
    (is "?new = ?rhs")
proof (rule HeapTuple.equality)
  note n = AlterOperator_new_tuple [OF wf refl, where ur = ur and rOid = rOid and uj = uj and jOid = jOid]
  show "t_self ?new = t_self ?rhs" using n(1) by simp
  have len: "length (t_values ?new) = 15" "length (t_isnull ?new) = 15"
    "length (t_values tup) = 15" "length (t_isnull tup) = 15"
    using n(2) wf by (simp_all add: pg_operator_tuple_def Natts_pg_operator_def)
  show "t_values ?new = t_values ?rhs"
  proof (rule nth_equalityI)
    show "length (t_values ?new) = length (t_values ?rhs)" using len by simp
    fix i assume "i < length (t_values ?new)"
    then have "i < Natts_pg_operator" using len by (simp add: Natts_pg_operator_def)
    from n(3) [OF this] len show "t_values ?new ! i = t_values ?rhs ! i"
      by (simp add: nth_list_update Anum_pg_operator_oprrest_def Anum_pg_operator_oprjoin_def)
  qed
  show "t_isnull ?new = t_isnull ?rhs"
  proof (rule nth_equalityI)
    show "length (t_isnull ?new) = length (t_isnull ?rhs)" using len by simp
    fix i assume "i < length (t_isnull ?new)"
    then have "i < Natts_pg_operator" using len by (simp add: Natts_pg_operator_def)
    from n(4) [OF this] len show "t_isnull ?new ! i = t_isnull ?rhs ! i"
      by (simp add: nth_list_update Anum_pg_operator_oprrest_def Anum_pg_operator_oprjoin_def)
  qed
  show "HeapTuple.more ?new = HeapTuple.more ?rhs"
    by (simp add: heap_modify_tuple_def split: prod.splits)
qed

lemma AlterOperator_update_wf:
  assumes wf: "pg_operator_tuple tup"
  shows "AlterOperator_update env oprId tup v rOid jOid s =
     (let tup' = tup\<lparr>t_values := (t_values tup)
                  [13 := (if updateRestriction v then ObjectIdGetDatum rOid else t_values tup ! 13),
                   14 := (if updateJoin v then ObjectIdGetDatum jOid else t_values tup ! 14)],
              t_isnull := (t_isnull tup)
                  [13 := (if updateRestriction v then False else t_isnull tup ! 13),
                   14 := (if updateJoin v then False else t_isnull tup ! 14)]\<rparr> in
      and_then (CatalogTupleUpdate env (t_self tup') tup' s) (\<lambda>s1.
      and_then (lift (makeOperatorDependencies env tup' True s1)) (\<lambda>(address, s2).
      and_then (lift (InvokeObjectPostAlterHook env oprId s2)) (\<lambda>s3.
      done_with (address, s3)))))"
proof -
  have "AlterOperator_update env oprId tup v rOid jOid s =
     (let tup' = (case AlterOperator_arrays (updateRestriction v) rOid (updateJoin v) jOid of
            (vals, nulls, replaces) \<Rightarrow> heap_modify_tuple tup vals nulls replaces) in
      and_then (CatalogTupleUpdate env (t_self tup') tup' s) (\<lambda>s1.
      and_then (lift (makeOperatorDependencies env tup' True s1)) (\<lambda>(address, s2).
      and_then (lift (InvokeObjectPostAlterHook env oprId s2)) (\<lambda>s3.
      done_with (address, s3)))))"
    by (simp add: AlterOperator_update_def split: prod.splits)
  then show ?thesis
    by (simp only: AlterOperator_new_tuple_eq [OF wf])
qed

lemma replicate_update_same [simp]: "(replicate n x)[i := x] = replicate n x"
  by (induction n arbitrary: i) (auto split: nat.splits)

lemma sample_row_wf [simp]: "pg_operator_tuple (sample_row tid oid l r res com neg code rest j)"
  by (simp add: pg_operator_tuple_def sample_row_def Natts_pg_operator_def)

lemmas sample_all_defs = sample_proc_defs sample_storage_defs sample_defGetQualifiedName_def
  sample_defGetTypeName_def sample_defGetBoolean_def sample_typenameTypeId_def
  sample_LookupOperWithArgs_def sample_option_def sample_option_none_def sample_alter_def
  sample_address_def sample_OperatorCreate_def sample_requires_parameter_def

lemmas alter_eval_defs = AlterOperator_def AlterOperator_defel_def AlterOperator_init_def
  AlterOperator_checks_def AlterOperator_update_wf pg_operator_tuple_def
  ValidateRestrictionEstimator_def ValidateJoinEstimator_def
  LookupFuncName_def storage_defs cache_lookup_failed_def run_defs Let_def

lemma sample_reaches_unary:
  "AlterOperator_reaches_checks sample_env
     (sample_alter ''-'' 1 [sample_option ''join'' ''eqjoinsel'']) sample_pg_operator 502
     (sample_row 3 502 InvalidOid INT4OID INT4OID 0 0 212 0 0)
     \<lparr>restrictionName = [], joinName = [''eqjoinsel''],
      updateRestriction = False, updateJoin = True\<rparr> InvalidOid 105"
  by (simp add: AlterOperator_reaches_checks_def sample_all_defs alter_eval_defs attr_defs
      oid_defs)

lemma sample_reaches_plus:
  "AlterOperator_reaches_checks sample_env
     (sample_alter ''+'' 2 [sample_option ''restrict'' ''eqsel'']) sample_pg_operator 505
     (sample_row 6 505 INT4OID INT4OID INT4OID 0 0 177 0 0)
     \<lparr>restrictionName = [''eqsel''], joinName = [],
      updateRestriction = True, updateJoin = False\<rparr> 101 InvalidOid"
  by (simp add: AlterOperator_reaches_checks_def sample_all_defs alter_eval_defs attr_defs
      oid_defs)

lemma sample_alter_less:
  "AlterOperator sample_env (sample_alter ''<'' 2 [sample_option ''join'' ''eqjoinsel''])
     sample_pg_operator =
   ([SearchSysCache1_call 503,
     LookupFuncName_call [''eqjoinsel''] 5 join_sig5 True,
     LookupFuncName_call [''eqjoinsel''] 4 join_sig4 True,
     CatalogTupleUpdate_call 4 (sample_row 4 503 INT4OID INT4OID BOOLOID 504 0 65 101 105)],
    Inr (sample_address 503,
         [sample_row 1 500 INT4OID INT4OID BOOLOID 500 501 65 101 105,
          sample_row 2 501 INT4OID INT4OID BOOLOID 501 500 65 0 0,
          sample_row 3 502 InvalidOid INT4OID INT4OID 0 0 212 0 0,
          sample_row 7 503 INT4OID INT4OID BOOLOID 504 0 65 101 105,
          sample_row 5 504 INT4OID INT4OID BOOLOID 503 0 65 0 0,
          sample_row 6 505 INT4OID INT4OID INT4OID 0 0 177 0 0]))"
  by (simp add: sample_all_defs alter_eval_defs attr_defs oid_defs join_sig5_def join_sig4_def)


lemma reaches_vars:
  assumes "AlterOperator_reaches_checks env stmt s oprId tup v rOid jOid"
  shows "snd (AlterOperator_foreach env AlterOperator_init (options stmt)) = Inr v"
    and "restrictionName v = [] \<Longrightarrow> rOid = InvalidOid"
    and "joinName v = [] \<Longrightarrow> jOid = InvalidOid"
  using assms by (auto simp: AlterOperator_reaches_checks_def)

lemma AlterOperator_foreach_init_vars:
  assumes "snd (AlterOperator_foreach env AlterOperator_init ps) = Inr v"
  shows "updateRestriction v = (\<exists>d \<in> set ps. defname d = ''restrict'')"
    and "updateJoin v = (\<exists>d \<in> set ps. defname d = ''join'')"
    and "(\<forall>d \<in> set ps. defname d = ''restrict'' \<longrightarrow> arg d = None) \<Longrightarrow> restrictionName v = []"
    and "(\<forall>d \<in> set ps. defname d = ''join'' \<longrightarrow> arg d = None) \<Longrightarrow> joinName v = []"
    and "\<forall>d \<in> set ps. defname d = ''restrict'' \<or> defname d = ''join''"
  using AlterOperator_foreach_vars [OF assms]
  by (simp_all add: AlterOperator_init_def)


lemma AlterOperator_defel_immutable:
  assumes "AlterOperator_immutable (defname d)"
    and "arg d = None \<or> (\<exists>n. defGetQualifiedName env d = Inr n)"
  shows "AlterOperator_defel env v d = raise (cannot_be_changed (defname d))"
  using assms
  by (auto simp: AlterOperator_defel_def AlterOperator_immutable_def cannot_be_changed_def
      run_defs)

lemma AlterOperator_immutable_other:
  "AlterOperator_immutable k \<Longrightarrow> k \<noteq> ''restrict'' \<and> k \<noteq> ''join''"
  by (auto simp: AlterOperator_immutable_def)

lemma AlterOperator_no_update_on_failure:
  "snd (AlterOperator_foreach env AlterOperator_init (options stmt)) = Inl e' \<Longrightarrow>
   CatalogTupleUpdate_call otid new \<notin> set (fst (AlterOperator env stmt s))"
  using AlterOperator_update_event [of otid new env stmt s]
  by (auto simp: AlterOperator_reaches_checks_def)

lemma sample_alter_eq_join_none:
  "AlterOperator sample_env (sample_alter ''='' 2 [sample_option_none ''join''])
     sample_pg_operator =
   ([SearchSysCache1_call 500,
     CatalogTupleUpdate_call 1 (sample_row 1 500 INT4OID INT4OID BOOLOID 500 501 65 101 0)],
    Inr (sample_address 500,
         [sample_row 7 500 INT4OID INT4OID BOOLOID 500 501 65 101 0,
          sample_row 2 501 INT4OID INT4OID BOOLOID 501 500 65 0 0,
          sample_row 3 502 InvalidOid INT4OID INT4OID 0 0 212 0 0,
          sample_row 4 503 INT4OID INT4OID BOOLOID 504 0 65 101 0,
          sample_row 5 504 INT4OID INT4OID BOOLOID 503 0 65 0 0,
          sample_row 6 505 INT4OID INT4OID INT4OID 0 0 177 0 0]))"
  by (simp add: sample_all_defs alter_eval_defs attr_defs oid_defs)

lemma sample_found_eq:
  "LookupOperWithArgs sample_env (opername (sample_alter ''='' 2 opts)) False sample_pg_operator
     = Inr 500"
  "syscache_OPEROID sample_env sample_pg_operator 500 =
     Some (sample_row 1 500 INT4OID INT4OID BOOLOID 500 501 65 101 105)"
  by (simp_all add: sample_all_defs attr_defs oid_defs)


subsection \<open>Definition: auxiliary facts\<close>

lemma DefineOperator_defel_unrecognized:
  "\<not> DefineOperator_recognized (defname d) \<Longrightarrow>
   DefineOperator_defel env v d = ([Report (not_recognized WARNING (defname d))], Inr v)"
  by (simp add: DefineOperator_defel_def DefineOperator_recognized_def not_recognized_def
      run_defs)

lemma fst_DefineOperator_defel_recognized:
  "DefineOperator_recognized (defname d) \<Longrightarrow> fst (DefineOperator_defel env v d) = []"
  by (auto simp: DefineOperator_defel_def DefineOperator_recognized_def fst_and_then
      split: sum.splits)

lemma DefineOperator_defel_alias:
  "DefineOperator_merge_alias (defname d) \<Longrightarrow>
   DefineOperator_defel env v d = ([], Inr (v\<lparr>canMerge := True\<rparr>))"
  by (auto simp: DefineOperator_defel_def DefineOperator_merge_alias_def done_with_def)

lemma DefineOperator_foreach_filter:
  "snd (DefineOperator_foreach env v ps) =
   snd (DefineOperator_foreach env v (filter (\<lambda>d. DefineOperator_recognized (defname d)) ps))"
proof (induction ps arbitrary: v)
  case Nil
  then show ?case by simp
next
  case (Cons d ps)
  show ?case
  proof (cases "DefineOperator_recognized (defname d)")
    case True
    then show ?thesis
      by (simp add: snd_and_then Cons.IH split: sum.splits)
  next
    case False
    then show ?thesis
      by (simp add: snd_and_then DefineOperator_defel_unrecognized Cons.IH)
  qed
qed

lemma DefineOperator_foreach_warnings:
  "snd (DefineOperator_foreach env v ps) = Inr v' \<Longrightarrow>
   fst (DefineOperator_foreach env v ps) =
     map (\<lambda>d. Report (not_recognized WARNING (defname d)))
       (filter (\<lambda>d. \<not> DefineOperator_recognized (defname d)) ps)"
proof (induction ps arbitrary: v)
  case Nil
  then show ?case by simp
next
  case (Cons d ps)
  from Cons.prems obtain v1 where
    step: "snd (DefineOperator_defel env v d) = Inr v1" and
    rest: "snd (DefineOperator_foreach env v1 ps) = Inr v'"
    by (auto simp: snd_and_then split: sum.splits)
  show ?case
  proof (cases "DefineOperator_recognized (defname d)")
    case True
    with step Cons.IH [OF rest] show ?thesis
      by (simp add: fst_and_then fst_DefineOperator_defel_recognized)
  next
    case False
    with step have "v1 = v" by (simp add: DefineOperator_defel_unrecognized)
    with False step Cons.IH [OF rest] show ?thesis
      by (simp add: fst_and_then DefineOperator_defel_unrecognized)
  qed
qed

lemma DefineOperator_foreach_events:
  "ev \<in> set (fst (DefineOperator_foreach env v ps)) \<Longrightarrow>
   \<exists>d \<in> set ps. \<not> DefineOperator_recognized (defname d) \<and>
                ev = Report (not_recognized WARNING (defname d))"
proof (induction ps arbitrary: v)
  case Nil
  then show ?case by simp
next
  case (Cons d ps)
  show ?case
  proof (cases "DefineOperator_recognized (defname d)")
    case True
    with Cons.prems Cons.IH show ?thesis
      by (auto simp: fst_and_then fst_DefineOperator_defel_recognized split: sum.splits)
  next
    case False
    with Cons.prems Cons.IH show ?thesis
      by (auto simp: fst_and_then DefineOperator_defel_unrecognized)
  qed
qed


lemma DefineOperator_only_foreach:
  assumes "snd (DefineOperator_foreach env DefineOperator_init ps) =
           snd (DefineOperator_foreach env DefineOperator_init ps')"
  shows "snd (DefineOperator env nm ps s) = snd (DefineOperator env nm ps' s)"
  by (simp add: DefineOperator_def snd_and_then assms split: sum.splits prod.splits)

lemma DefineOperator_reached:
  assumes "DefineOperator_reaches_types env nm ps ns n ws v typeId1 typeId2"
  shows "DefineOperator env nm ps s =
    (if \<not> OidIsValid typeId2
     then (ws, Inl (if \<not> OidIsValid typeId1
              then ereport ERROR ERRCODE_INVALID_FUNCTION_DEFINITION
                     ''operator argument types must be specified'' []
              else ErrorData ERROR ERRCODE_INVALID_FUNCTION_DEFINITION
                     ''operator right argument type must be specified'' []
                     (Some ''Postfix operators are not supported.'')))
     else (ws @ fst (DefineOperator_create env ns n v typeId1 typeId2 s),
           snd (DefineOperator_create env ns n v typeId1 typeId2 s)))"
  using assms
  by (cases "DefineOperator_create env ns n v typeId1 typeId2 s")
     (simp add: DefineOperator_def DefineOperator_checked_def DefineOperator_reaches_types_def
        run_defs)

lemma DefineOperator_create_usable:
  assumes "DefineOperator_types_usable env v typeId1 typeId2"
  shows "DefineOperator_create env ns n v typeId1 typeId2 s =
     (case DefineOperator_lookup_args typeId1 typeId2 of (typeId, nargs) \<Rightarrow>
      and_then (LookupFuncName env (functionName v) nargs typeId False) (\<lambda>functionOid.
      and_then
       (let aclresult = pg_proc_aclcheck env functionOid (GetUserId env) ACL_EXECUTE in
        if aclresult \<noteq> ACLCHECK_OK
        then raise (aclcheck_error env aclresult OBJECT_FUNCTION
                      (NameListToString env (functionName v)))
        else done_with ()) (\<lambda>_.
      let rettype = get_func_rettype env functionOid in
      and_then
       (let aclresult = pg_type_aclcheck env rettype (GetUserId env) ACL_USAGE in
        if aclresult \<noteq> ACLCHECK_OK
        then raise (aclcheck_error_type env aclresult rettype) else done_with ()) (\<lambda>_.
      and_then (if restrictionName v \<noteq> []
               then ValidateRestrictionEstimator env (restrictionName v)
               else done_with InvalidOid) (\<lambda>restrictionOid.
      and_then (if joinName v \<noteq> []
               then ValidateJoinEstimator env (joinName v)
               else done_with InvalidOid) (\<lambda>joinOid.
      OperatorCreate env
       \<lparr>oc_operatorName = n, oc_operatorNamespace = ns,
        oc_leftTypeId = typeId1, oc_rightTypeId = typeId2, oc_procedureId = functionOid,
        oc_commutatorName = commutatorName v, oc_negatorName = negatorName v,
        oc_restrictionId = restrictionOid, oc_joinId = joinOid,
        oc_canMerge = canMerge v, oc_canHash = canHash v\<rparr> s))))))"
proof -
  have a1: "(if typeName1 v \<noteq> None
        then (let aclresult = pg_type_aclcheck env typeId1 (GetUserId env) ACL_USAGE in
              if aclresult \<noteq> ACLCHECK_OK
              then raise (aclcheck_error_type env aclresult typeId1) else done_with ())
        else done_with ()) = done_with ()"
    using assms by (auto simp: DefineOperator_types_usable_def)
  have a2: "(if typeName2 v \<noteq> None
        then (let aclresult = pg_type_aclcheck env typeId2 (GetUserId env) ACL_USAGE in
              if aclresult \<noteq> ACLCHECK_OK
              then raise (aclcheck_error_type env aclresult typeId2) else done_with ())
        else done_with ()) = done_with ()"
    using assms by (auto simp: DefineOperator_types_usable_def)
  show ?thesis
    unfolding DefineOperator_create_def a1 a2 and_then_done ..
qed

lemma fst_DefineOperator_create:
  assumes "DefineOperator_types_usable env v typeId1 typeId2"
  shows "\<exists>rest. fst (DefineOperator_create env ns n v typeId1 typeId2 s) =
           LookupFuncName_call (functionName v)
                  (snd (DefineOperator_lookup_args typeId1 typeId2))
                  (fst (DefineOperator_lookup_args typeId1 typeId2)) False # rest"
proof -
  obtain typeId nargs where
    la: "DefineOperator_lookup_args typeId1 typeId2 = (typeId, nargs)"
    by (cases "DefineOperator_lookup_args typeId1 typeId2") auto
  then have tk: "take nargs typeId = typeId"
    by (auto simp: DefineOperator_lookup_args_def split: if_splits)
  show ?thesis
    by (simp add: DefineOperator_create_usable [OF assms] la fst_and_then [where m = "LookupFuncName _ _ _ _ _"]
        fst_LookupFuncName tk split: sum.splits)
qed

lemma ValidateRestrictionEstimator_lookups:
  "LookupFuncName_call f k ts ok \<in> set (fst (ValidateRestrictionEstimator env n)) \<Longrightarrow>
   k = 4 \<and> length ts = 4"
  by (auto simp: ValidateRestrictionEstimator_def Let_def fst_and_then fst_LookupFuncName
      split: sum.splits if_splits)

lemma ValidateJoinEstimator_lookups:
  "LookupFuncName_call f k ts ok \<in> set (fst (ValidateJoinEstimator env n)) \<Longrightarrow>
   (k = 4 \<or> k = 5) \<and> length ts = k"
  by (auto simp: ValidateJoinEstimator_def Let_def fst_and_then fst_LookupFuncName
      split: sum.splits if_splits)


lemma in_and_then:
  "ev \<in> set (fst (and_then m f)) \<Longrightarrow>
   ev \<in> set (fst m) \<or> (\<exists>x. snd m = Inr x \<and> ev \<in> set (fst (f x)))"
  by (auto simp: fst_and_then split: sum.splits)

lemma DefineOperator_lookup_args_take:
  "take (snd (DefineOperator_lookup_args t1 t2)) (fst (DefineOperator_lookup_args t1 t2)) =
   fst (DefineOperator_lookup_args t1 t2)"
  by (simp add: DefineOperator_lookup_args_def)

lemma DefineOperator_create_events:
  assumes "ev \<in> set (fst (DefineOperator_create env ns n v t1 t2 s))"
  shows "ev = LookupFuncName_call (functionName v) (snd (DefineOperator_lookup_args t1 t2))
                (fst (DefineOperator_lookup_args t1 t2)) False
   \<or> ev \<in> set (fst (ValidateRestrictionEstimator env (restrictionName v)))
   \<or> ev \<in> set (fst (ValidateJoinEstimator env (joinName v)))
   \<or> (\<exists>a. ev = OperatorCreate_call a)"
proof -
  obtain typeId nargs where
    la: "DefineOperator_lookup_args t1 t2 = (typeId, nargs)"
    by (cases "DefineOperator_lookup_args t1 t2") auto
  with DefineOperator_lookup_args_take [of t1 t2] have tk: "take nargs typeId = typeId"
    by simp
  from assms show ?thesis
    unfolding DefineOperator_create_def la
    by (auto simp: Let_def OperatorCreate_def fst_LookupFuncName tk
        dest!: in_and_then split: if_splits)
qed

subsection \<open>Removal\<close>

text \<open>
  C2. \<^verbatim>\<open>RemoveOperatorById\<close> fetches the row first; if there is none it fails with
  the internal error "cache lookup failed". If the row has a commutator or a negator,
  the second event of the run is the call of \<^verbatim>\<open>OperatorUpd\<close> that asks for the
  links on the other side to be cleared, and a run that succeeds deletes exactly one
  tuple, after that call; if the clearing fails nothing is deleted. When the operator is
  its own commutator or negator, the row is fetched again from the catalog as
  \<^verbatim>\<open>OperatorUpd\<close> left it: if there is no row then, the same internal error is
  raised, and otherwise the tuple deleted is the one just fetched, in that very state
  of the catalog. When it is neither, the tuple of the first fetch is deleted.
\<close>

theorem RemoveOperatorById_protocol:
  "(syscache_OPEROID env s operOid = None \<longrightarrow>
      RemoveOperatorById env operOid s =
        ([SearchSysCache1_call operOid], Inl (cache_lookup_failed operOid)))
   \<and> sqlerrcode (cache_lookup_failed operOid) = ERRCODE_INTERNAL_ERROR
   \<and> elevel (cache_lookup_failed operOid) = ERROR
   \<and> (syscache_OPEROID env s operOid = Some tup \<and>
        (OidIsValid (oprcom tup) \<or> OidIsValid (oprnegate tup)) \<longrightarrow>
        (\<exists>rest. fst (RemoveOperatorById env operOid s) =
                  SearchSysCache1_call operOid #
                  OperatorUpd_call operOid (oprcom tup) (oprnegate tup) True # rest
               \<and> (\<forall>s'. snd (RemoveOperatorById env operOid s) = Inr s' \<longrightarrow>
                      (\<exists>tid. filter (\<lambda>ev. \<exists>t. ev = CatalogTupleDelete_call t) rest = [CatalogTupleDelete_call tid])))
        \<and> (\<forall>e. c_OperatorUpd env operOid (oprcom tup) (oprnegate tup) True s = Inl e \<longrightarrow>
              RemoveOperatorById env operOid s =
                ([SearchSysCache1_call operOid,
                  OperatorUpd_call operOid (oprcom tup) (oprnegate tup) True], Inl e))
        \<and> (\<forall>s1. c_OperatorUpd env operOid (oprcom tup) (oprnegate tup) True s = Inr s1 \<and>
                 (operOid = oprcom tup \<or> operOid = oprnegate tup) \<longrightarrow>
              (syscache_OPEROID env s1 operOid = None \<longrightarrow>
                 RemoveOperatorById env operOid s =
                   ([SearchSysCache1_call operOid,
                     OperatorUpd_call operOid (oprcom tup) (oprnegate tup) True,
                     ReleaseSysCache_call (t_self tup),
                     SearchSysCache1_call operOid], Inl (cache_lookup_failed operOid)))
              \<and> (\<forall>tup'. syscache_OPEROID env s1 operOid = Some tup' \<longrightarrow>
                    RemoveOperatorById env operOid s =
                      ([SearchSysCache1_call operOid,
                        OperatorUpd_call operOid (oprcom tup) (oprnegate tup) True,
                        ReleaseSysCache_call (t_self tup),
                        SearchSysCache1_call operOid,
                        CatalogTupleDelete_call (t_self tup')] @
                       (case c_CatalogTupleDelete env (t_self tup') s1 of
                          Inl _ \<Rightarrow> [] | Inr _ \<Rightarrow> [ReleaseSysCache_call (t_self tup')]),
                       c_CatalogTupleDelete env (t_self tup') s1)))
        \<and> (\<forall>s1. c_OperatorUpd env operOid (oprcom tup) (oprnegate tup) True s = Inr s1 \<and>
                 \<not> (operOid = oprcom tup \<or> operOid = oprnegate tup) \<longrightarrow>
               RemoveOperatorById env operOid s =
                 ([SearchSysCache1_call operOid,
                   OperatorUpd_call operOid (oprcom tup) (oprnegate tup) True,
                   CatalogTupleDelete_call (t_self tup)] @
                  (case c_CatalogTupleDelete env (t_self tup) s1 of
                     Inl _ \<Rightarrow> [] | Inr _ \<Rightarrow> [ReleaseSysCache_call (t_self tup)]),
                  c_CatalogTupleDelete env (t_self tup) s1)))"
  by (auto simp: RemoveOperatorById_def storage_defs run_defs cache_lookup_failed_def elog_def
      split: sum.splits option.splits prod.splits)

text \<open>
  In the sample catalog operator 500 is its own commutator and has negator 501.
  Clearing the links moves the row of 500 to location 7; the delete is aimed at 7 and
  succeeds, and the row of 501 has lost its negator. A delete aimed at the location of
  the first fetch would have failed. No operator 999 exists.
\<close>

theorem RemoveOperatorById_protocol_witness:
  "RemoveOperatorById sample_env 500 sample_pg_operator =
     ([SearchSysCache1_call 500, OperatorUpd_call 500 500 501 True, ReleaseSysCache_call 1,
       SearchSysCache1_call 500, CatalogTupleDelete_call 7, ReleaseSysCache_call 7],
      Inr [sample_row 8 501 INT4OID INT4OID BOOLOID 501 0 65 0 0,
           sample_row 3 502 InvalidOid INT4OID INT4OID 0 0 212 0 0,
           sample_row 4 503 INT4OID INT4OID BOOLOID 504 0 65 101 0,
           sample_row 5 504 INT4OID INT4OID BOOLOID 503 0 65 0 0,
           sample_row 6 505 INT4OID INT4OID INT4OID 0 0 177 0 0])
   \<and> (case sample_OperatorUpd 500 500 501 True sample_pg_operator of
        Inl _ \<Rightarrow> False
      | Inr s1 \<Rightarrow> sample_CatalogTupleDelete 1 s1 = Inl sample_tuple_gone)
   \<and> RemoveOperatorById sample_env 999 sample_pg_operator =
       ([SearchSysCache1_call 999], Inl (cache_lookup_failed 999))"
  using RemoveOperatorById_protocol
          [of sample_env sample_pg_operator 500
              "sample_row 1 500 INT4OID INT4OID BOOLOID 500 501 65 101 105"]
        RemoveOperatorById_protocol [of sample_env sample_pg_operator 999]
  by (simp add: sample_env_def sample_storage_defs attr_defs oid_defs)

subsection \<open>Alteration: the checks against the stored row\<close>

text \<open>
  C3, as the source has it. When a run of \<^verbatim>\<open>AlterOperator\<close> reaches the checks of
  lines 500 to 520 (the operator is found, the options are read, the caller owns the
  operator and the estimators that were named are validated, all of which comes first), they
  look at the row as it is stored: if the stored operator lacks a left or a right
  operand type and a join estimator was named, the run fails with
  \<^verbatim>\<open>ERRCODE_INVALID_FUNCTION_DEFINITION\<close>, "only binary operators can have join
  selectivity"; if the stored result type is not boolean and a restriction or a join
  estimator was named, it fails with an error of the same code. Hence every tuple that
  a run hands to \<^verbatim>\<open>CatalogTupleUpdate\<close> satisfies I4 and I5 if the stored row did, and
  it has the operand and result types of the stored row.
\<close>

theorem AlterOperator_shape_revalidated:
  "(AlterOperator_reaches_checks env stmt s oprId tup v rOid jOid \<longrightarrow>
      (\<not> (OidIsValid (oprleft tup) \<and> OidIsValid (oprright tup)) \<and> joinName v \<noteq> [] \<longrightarrow>
         snd (AlterOperator env stmt s) =
           Inl (ereport ERROR ERRCODE_INVALID_FUNCTION_DEFINITION
                  ''only binary operators can have join selectivity'' []))
      \<and> (oprresult tup \<noteq> BOOLOID \<and> (restrictionName v \<noteq> [] \<or> joinName v \<noteq> []) \<longrightarrow>
           (\<exists>e. snd (AlterOperator env stmt s) = Inl e \<and> elevel e = ERROR \<and>
                sqlerrcode e = ERRCODE_INVALID_FUNCTION_DEFINITION)))
   \<and> (LookupOperWithArgs env (opername stmt) False s = Inr oprId \<and>
       syscache_OPEROID env s oprId = Some tup \<and>
       pg_operator_tuple tup \<and> inv_I4 tup \<and> inv_I5 tup \<and>
       CatalogTupleUpdate_call otid new \<in> set (fst (AlterOperator env stmt s)) \<longrightarrow>
         inv_I4 new \<and> inv_I5 new \<and> oprleft new = oprleft tup \<and>
         oprright new = oprright tup \<and> oprresult new = oprresult tup)"
proof -
  have binary: "snd (AlterOperator env stmt s) =
           Inl (ereport ERROR ERRCODE_INVALID_FUNCTION_DEFINITION
                  ''only binary operators can have join selectivity'' [])"
    if r: "AlterOperator_reaches_checks env stmt s oprId tup v rOid jOid"
    and a: "\<not> (OidIsValid (oprleft tup) \<and> OidIsValid (oprright tup)) \<and> joinName v \<noteq> []"
  proof -
    from reaches_estimators(2) [OF r] a have "OidIsValid jOid" by simp
    with a show ?thesis
      by (simp add: AlterOperator_reached [OF r] AlterOperator_checks_def)
  qed
  have boolean: "\<exists>e. snd (AlterOperator env stmt s) = Inl e \<and> elevel e = ERROR \<and>
                sqlerrcode e = ERRCODE_INVALID_FUNCTION_DEFINITION"
    if r: "AlterOperator_reaches_checks env stmt s oprId tup v rOid jOid"
    and a: "oprresult tup \<noteq> BOOLOID \<and> (restrictionName v \<noteq> [] \<or> joinName v \<noteq> [])"
  proof -
    from reaches_estimators [OF r] a have "OidIsValid rOid \<or> OidIsValid jOid" by simp
    with a show ?thesis
      by (auto simp: AlterOperator_reached [OF r] AlterOperator_checks_def ereport_def)
  qed
  have kept: "inv_I4 new \<and> inv_I5 new \<and> oprleft new = oprleft tup \<and>
         oprright new = oprright tup \<and> oprresult new = oprresult tup"
    if a: "LookupOperWithArgs env (opername stmt) False s = Inr oprId \<and>
       syscache_OPEROID env s oprId = Some tup \<and>
       pg_operator_tuple tup \<and> inv_I4 tup \<and> inv_I5 tup \<and>
       CatalogTupleUpdate_call otid new \<in> set (fst (AlterOperator env stmt s))"
  proof -
    from a have ev: "CatalogTupleUpdate_call otid new \<in> set (fst (AlterOperator env stmt s))"
      by simp
    from AlterOperator_update_event [OF ev] obtain oprId' tup' v' rOid' jOid' where
      r: "AlterOperator_reaches_checks env stmt s oprId' tup' v' rOid' jOid'" and
      c: "snd (AlterOperator_checks tup' rOid' jOid') = Inr ()" and
      n: "new = (case AlterOperator_arrays (updateRestriction v') rOid' (updateJoin v') jOid' of
                   (vals, nulls, replaces) \<Rightarrow> heap_modify_tuple tup' vals nulls replaces)"
      by blast
    from reaches_unique [OF r] a have t: "tup' = tup" by simp
    from a have wf: "pg_operator_tuple tup" by simp
    note f = AlterOperator_new_tuple_fields [OF wf n [unfolded t]]
    from c [unfolded t AlterOperator_checks_pass] a
    have "inv_I4 new" "inv_I5 new"
      by (auto simp: inv_I4_def inv_I5_def f)
    with f show ?thesis by simp
  qed
  from binary boolean kept show ?thesis by blast
qed

text \<open>
  In the sample: a join estimator for the prefix minus, a restriction estimator for the
  integer plus, and a join estimator for \<^verbatim>\<open><\<close>, which is binary and boolean and gets
  it.
\<close>

theorem AlterOperator_shape_revalidated_witness:
  "snd (AlterOperator sample_env (sample_alter ''-'' 1 [sample_option ''join'' ''eqjoinsel''])
          sample_pg_operator) =
     Inl (ereport ERROR ERRCODE_INVALID_FUNCTION_DEFINITION
            ''only binary operators can have join selectivity'' [])
   \<and> snd (AlterOperator sample_env (sample_alter ''+'' 2 [sample_option ''restrict'' ''eqsel''])
            sample_pg_operator) =
       Inl (ereport ERROR ERRCODE_INVALID_FUNCTION_DEFINITION
              ''only boolean operators can have restriction selectivity'' [])
   \<and> CatalogTupleUpdate_call 4 (sample_row 4 503 INT4OID INT4OID BOOLOID 504 0 65 101 105)
       \<in> set (fst (AlterOperator sample_env
                     (sample_alter ''<'' 2 [sample_option ''join'' ''eqjoinsel''])
                     sample_pg_operator))
   \<and> inv_I4 (sample_row 4 503 INT4OID INT4OID BOOLOID 504 0 65 101 105)
   \<and> inv_I5 (sample_row 4 503 INT4OID INT4OID BOOLOID 504 0 65 101 105)
   \<and> OidIsValid (oprjoin (sample_row 4 503 INT4OID INT4OID BOOLOID 504 0 65 101 105))"
proof -
  have unary: "snd (AlterOperator sample_env
        (sample_alter ''-'' 1 [sample_option ''join'' ''eqjoinsel'']) sample_pg_operator) =
     Inl (ereport ERROR ERRCODE_INVALID_FUNCTION_DEFINITION
            ''only binary operators can have join selectivity'' [])"
    using AlterOperator_shape_revalidated
      [THEN conjunct1, rule_format, OF sample_reaches_unary, THEN conjunct1]
    by (simp add: sample_row_def attr_defs oid_defs)
  have plus: "\<exists>e. snd (AlterOperator sample_env
        (sample_alter ''+'' 2 [sample_option ''restrict'' ''eqsel'']) sample_pg_operator) = Inl e \<and>
        elevel e = ERROR \<and> sqlerrcode e = ERRCODE_INVALID_FUNCTION_DEFINITION"
    using AlterOperator_shape_revalidated
      [THEN conjunct1, rule_format, OF sample_reaches_plus, THEN conjunct2]
    by (simp add: sample_row_def attr_defs oid_defs)
  have plus': "snd (AlterOperator sample_env
        (sample_alter ''+'' 2 [sample_option ''restrict'' ''eqsel'']) sample_pg_operator) =
       Inl (ereport ERROR ERRCODE_INVALID_FUNCTION_DEFINITION
              ''only boolean operators can have restriction selectivity'' [])"
    by (simp add: AlterOperator_reached [OF sample_reaches_plus] AlterOperator_checks_def
        sample_row_def attr_defs oid_defs)
  let ?old = "sample_row 4 503 INT4OID INT4OID BOOLOID 504 0 65 101 0"
  let ?new = "sample_row 4 503 INT4OID INT4OID BOOLOID 504 0 65 101 105"
  let ?stmt = "sample_alter ''<'' 2 [sample_option ''join'' ''eqjoinsel'']"
  have ev: "CatalogTupleUpdate_call 4 ?new \<in> set (fst (AlterOperator sample_env ?stmt sample_pg_operator))"
    by (simp add: sample_alter_less)
  have found: "LookupOperWithArgs sample_env (opername ?stmt) False sample_pg_operator = Inr 503"
    "syscache_OPEROID sample_env sample_pg_operator 503 = Some ?old"
    by (simp_all add: sample_all_defs attr_defs oid_defs)
  have old: "pg_operator_tuple ?old" "inv_I4 ?old" "inv_I5 ?old"
    by (simp_all add: inv_I4_def inv_I5_def sample_row_def attr_defs oid_defs
        pg_operator_tuple_def)
  have kept: "inv_I4 ?new \<and> inv_I5 ?new"
    using AlterOperator_shape_revalidated
      [of sample_env ?stmt sample_pg_operator 503 ?old _ _ _ 4 ?new, THEN conjunct2]
      ev found old
    by simp
  have "OidIsValid (oprjoin ?new)"
    by (simp add: sample_row_def attr_defs oid_defs)
  with unary plus plus' ev kept show ?thesis by simp
qed

text \<open>
  C3 as the spec words it fails: for the prefix minus of the sample, which has no left
  operand type and does not return a boolean, a join estimator that does not exist is
  refused with \<^verbatim>\<open>ERRCODE_UNDEFINED_FUNCTION\<close>, and a caller who does not own the operator
  is refused with \<^verbatim>\<open>ERRCODE_INSUFFICIENT_PRIVILEGE\<close>; neither is
  \<^verbatim>\<open>ERRCODE_INVALID_FUNCTION_DEFINITION\<close>.
\<close>

theorem AlterOperator_shape_revalidated_counterexample:
  "LookupOperWithArgs sample_env
       (opername (sample_alter ''-'' 1 [sample_option ''join'' ''nosuchsel'']))
       False sample_pg_operator = Inr 502
   \<and> syscache_OPEROID sample_env sample_pg_operator 502 =
       Some (sample_row 3 502 InvalidOid INT4OID INT4OID 0 0 212 0 0)
   \<and> \<not> OidIsValid (oprleft (sample_row 3 502 InvalidOid INT4OID INT4OID 0 0 212 0 0))
   \<and> oprresult (sample_row 3 502 InvalidOid INT4OID INT4OID 0 0 212 0 0) \<noteq> BOOLOID
   \<and> snd (AlterOperator sample_env
            (sample_alter ''-'' 1 [sample_option ''join'' ''nosuchsel'']) sample_pg_operator) =
       Inl (ereport ERROR ERRCODE_UNDEFINED_FUNCTION ''function %s does not exist''
              [fmt_signature [''nosuchsel''] 5 join_sig5])
   \<and> snd (AlterOperator (sample_env\<lparr>GetUserId := 11\<rparr>)
            (sample_alter ''-'' 1 [sample_option ''join'' ''eqjoinsel'']) sample_pg_operator) =
       Inl (ereport ERROR ERRCODE_INSUFFICIENT_PRIVILEGE ''permission denied for %s''
              [fmt_s ''operator''])
   \<and> ERRCODE_UNDEFINED_FUNCTION \<noteq> ERRCODE_INVALID_FUNCTION_DEFINITION
   \<and> ERRCODE_INSUFFICIENT_PRIVILEGE \<noteq> ERRCODE_INVALID_FUNCTION_DEFINITION"
  by (simp add: sample_all_defs alter_eval_defs attr_defs oid_defs join_sig5_def ereport_def)

subsection \<open>Alteration: what is written\<close>

text \<open>
  C7. The array \<open>replaces\<close> marks the restriction estimator exactly when a
  \<^verbatim>\<open>restrict\<close> option was read and the join estimator exactly when a \<^verbatim>\<open>join\<close>
  option was read, and nothing else. Every tuple that a run of \<^verbatim>\<open>AlterOperator\<close>
  hands to \<^verbatim>\<open>CatalogTupleUpdate\<close> replaces the fetched one at its location and agrees
  with it in every attribute other than the two estimators; an estimator for which no
  option was given is unchanged too; and when the \<^verbatim>\<open>join\<close> options carry no value,
  the join estimator of the new tuple is \<open>InvalidOid\<close> (likewise for \<^verbatim>\<open>restrict\<close>).
  A run that succeeds has handed over such a tuple.
\<close>

theorem AlterOperator_partial_update:
  "(AlterOperator_arrays ur rOid uj jOid = (vals, nulls, replaces) \<longrightarrow>
      (\<forall>i < Natts_pg_operator.
         replaces ! i = ((ur \<and> i = Anum_pg_operator_oprrest - 1) \<or>
                         (uj \<and> i = Anum_pg_operator_oprjoin - 1))))
   \<and> (LookupOperWithArgs env (opername stmt) False s = Inr oprId \<and>
       syscache_OPEROID env s oprId = Some tup \<and> pg_operator_tuple tup \<and>
       CatalogTupleUpdate_call otid new \<in> set (fst (AlterOperator env stmt s)) \<longrightarrow>
         otid = t_self tup \<and> t_self new = t_self tup \<and> pg_operator_tuple new \<and>
         (\<forall>i < Natts_pg_operator.
            i \<noteq> Anum_pg_operator_oprrest - 1 \<and> i \<noteq> Anum_pg_operator_oprjoin - 1 \<longrightarrow>
            t_values new ! i = t_values tup ! i \<and> t_isnull new ! i = t_isnull tup ! i) \<and>
         ((\<forall>d \<in> set (options stmt). defname d \<noteq> ''restrict'') \<longrightarrow>
            t_values new ! (Anum_pg_operator_oprrest - 1) =
              t_values tup ! (Anum_pg_operator_oprrest - 1) \<and>
            t_isnull new ! (Anum_pg_operator_oprrest - 1) =
              t_isnull tup ! (Anum_pg_operator_oprrest - 1)) \<and>
         ((\<forall>d \<in> set (options stmt). defname d \<noteq> ''join'') \<longrightarrow>
            t_values new ! (Anum_pg_operator_oprjoin - 1) =
              t_values tup ! (Anum_pg_operator_oprjoin - 1) \<and>
            t_isnull new ! (Anum_pg_operator_oprjoin - 1) =
              t_isnull tup ! (Anum_pg_operator_oprjoin - 1)) \<and>
         ((\<exists>d \<in> set (options stmt). defname d = ''join'') \<and>
          (\<forall>d \<in> set (options stmt). defname d = ''join'' \<longrightarrow> arg d = None) \<longrightarrow>
            oprjoin new = InvalidOid) \<and>
         ((\<exists>d \<in> set (options stmt). defname d = ''restrict'') \<and>
          (\<forall>d \<in> set (options stmt). defname d = ''restrict'' \<longrightarrow> arg d = None) \<longrightarrow>
            oprrest new = InvalidOid))
   \<and> (LookupOperWithArgs env (opername stmt) False s = Inr oprId \<and>
       syscache_OPEROID env s oprId = Some tup \<and>
       snd (AlterOperator env stmt s) = Inr r \<longrightarrow>
         (\<exists>new. CatalogTupleUpdate_call (t_self tup) new \<in> set (fst (AlterOperator env stmt s))))"
proof -
  have arrays: "\<forall>i < Natts_pg_operator.
         replaces ! i = ((ur \<and> i = Anum_pg_operator_oprrest - 1) \<or>
                         (uj \<and> i = Anum_pg_operator_oprjoin - 1))"
    if "AlterOperator_arrays ur rOid uj jOid = (vals, nulls, replaces)"
    using AlterOperator_arrays_replaces [OF that] by blast
  have frame: "otid = t_self tup \<and> t_self new = t_self tup \<and> pg_operator_tuple new \<and>
         (\<forall>i < Natts_pg_operator.
            i \<noteq> Anum_pg_operator_oprrest - 1 \<and> i \<noteq> Anum_pg_operator_oprjoin - 1 \<longrightarrow>
            t_values new ! i = t_values tup ! i \<and> t_isnull new ! i = t_isnull tup ! i) \<and>
         ((\<forall>d \<in> set (options stmt). defname d \<noteq> ''restrict'') \<longrightarrow>
            t_values new ! (Anum_pg_operator_oprrest - 1) =
              t_values tup ! (Anum_pg_operator_oprrest - 1) \<and>
            t_isnull new ! (Anum_pg_operator_oprrest - 1) =
              t_isnull tup ! (Anum_pg_operator_oprrest - 1)) \<and>
         ((\<forall>d \<in> set (options stmt). defname d \<noteq> ''join'') \<longrightarrow>
            t_values new ! (Anum_pg_operator_oprjoin - 1) =
              t_values tup ! (Anum_pg_operator_oprjoin - 1) \<and>
            t_isnull new ! (Anum_pg_operator_oprjoin - 1) =
              t_isnull tup ! (Anum_pg_operator_oprjoin - 1)) \<and>
         ((\<exists>d \<in> set (options stmt). defname d = ''join'') \<and>
          (\<forall>d \<in> set (options stmt). defname d = ''join'' \<longrightarrow> arg d = None) \<longrightarrow>
            oprjoin new = InvalidOid) \<and>
         ((\<exists>d \<in> set (options stmt). defname d = ''restrict'') \<and>
          (\<forall>d \<in> set (options stmt). defname d = ''restrict'' \<longrightarrow> arg d = None) \<longrightarrow>
            oprrest new = InvalidOid)"
    if a: "LookupOperWithArgs env (opername stmt) False s = Inr oprId \<and>
       syscache_OPEROID env s oprId = Some tup \<and> pg_operator_tuple tup \<and>
       CatalogTupleUpdate_call otid new \<in> set (fst (AlterOperator env stmt s))"
  proof -
    from a have ev: "CatalogTupleUpdate_call otid new \<in> set (fst (AlterOperator env stmt s))"
      and wf: "pg_operator_tuple tup" by simp_all
    from AlterOperator_update_event [OF ev] obtain oprId' tup' v rOid' jOid' where
      r: "AlterOperator_reaches_checks env stmt s oprId' tup' v rOid' jOid'" and
      o: "otid = t_self tup'" and
      n: "new = (case AlterOperator_arrays (updateRestriction v) rOid' (updateJoin v) jOid' of
                   (vals, nulls, replaces) \<Rightarrow> heap_modify_tuple tup' vals nulls replaces)"
      by blast
    from reaches_unique [OF r] a have t: "tup' = tup" by simp
    note nt = AlterOperator_new_tuple [OF wf n [unfolded t]]
    note nf = AlterOperator_new_tuple_fields [OF wf n [unfolded t]]
    note vs = AlterOperator_foreach_init_vars [OF reaches_vars(1) [OF r]]
    note inv = reaches_vars(2,3) [OF r]
    have unchanged: "\<forall>i < Natts_pg_operator.
            i \<noteq> Anum_pg_operator_oprrest - 1 \<and> i \<noteq> Anum_pg_operator_oprjoin - 1 \<longrightarrow>
            t_values new ! i = t_values tup ! i \<and> t_isnull new ! i = t_isnull tup ! i"
      using nt(3,4) by simp
    have lt: "Anum_pg_operator_oprrest - 1 < Natts_pg_operator"
      "Anum_pg_operator_oprjoin - 1 < Natts_pg_operator"
      "Anum_pg_operator_oprrest - 1 \<noteq> Anum_pg_operator_oprjoin - 1"
      by (simp_all add: Natts_pg_operator_def Anum_pg_operator_oprrest_def
          Anum_pg_operator_oprjoin_def)
    have norestrict: "t_values new ! (Anum_pg_operator_oprrest - 1) =
              t_values tup ! (Anum_pg_operator_oprrest - 1) \<and>
            t_isnull new ! (Anum_pg_operator_oprrest - 1) =
              t_isnull tup ! (Anum_pg_operator_oprrest - 1)"
      if "\<forall>d \<in> set (options stmt). defname d \<noteq> ''restrict''"
      using that vs(1) nt(3) [OF lt(1)] nt(4) [OF lt(1)] lt(3) by simp
    have nojoin: "t_values new ! (Anum_pg_operator_oprjoin - 1) =
              t_values tup ! (Anum_pg_operator_oprjoin - 1) \<and>
            t_isnull new ! (Anum_pg_operator_oprjoin - 1) =
              t_isnull tup ! (Anum_pg_operator_oprjoin - 1)"
      if "\<forall>d \<in> set (options stmt). defname d \<noteq> ''join''"
      using that vs(2) nt(3) [OF lt(2)] nt(4) [OF lt(2)] lt(3) by simp
    have clearjoin: "oprjoin new = InvalidOid"
      if "(\<exists>d \<in> set (options stmt). defname d = ''join'') \<and>
          (\<forall>d \<in> set (options stmt). defname d = ''join'' \<longrightarrow> arg d = None)"
      using that vs(2) vs(4) inv(2) nf(7) by simp
    have clearrest: "oprrest new = InvalidOid"
      if "(\<exists>d \<in> set (options stmt). defname d = ''restrict'') \<and>
          (\<forall>d \<in> set (options stmt). defname d = ''restrict'' \<longrightarrow> arg d = None)"
      using that vs(1) vs(3) inv(1) nf(6) by simp
    from o t nt(1,2) unchanged norestrict nojoin clearjoin clearrest show ?thesis
      by blast
  qed
  have live: "\<exists>new. CatalogTupleUpdate_call (t_self tup) new \<in> set (fst (AlterOperator env stmt s))"
    if a: "LookupOperWithArgs env (opername stmt) False s = Inr oprId \<and>
       syscache_OPEROID env s oprId = Some tup \<and>
       snd (AlterOperator env stmt s) = Inr r"
    using a
    by (auto simp: AlterOperator_def snd_and_then fst_and_then SearchSysCache1_def
        fst_AlterOperator_update split: sum.splits option.splits if_splits)
  from arrays frame live show ?thesis by blast
qed

text \<open>
  In the sample, \<^verbatim>\<open>SET (join = NONE)\<close> on operator 500: the new tuple differs from
  the stored one in the join estimator only, and the restriction estimator is still 101.
\<close>

theorem AlterOperator_partial_update_witness:
  "CatalogTupleUpdate_call 1 (sample_row 1 500 INT4OID INT4OID BOOLOID 500 501 65 101 0)
     \<in> set (fst (AlterOperator sample_env (sample_alter ''='' 2 [sample_option_none ''join''])
                   sample_pg_operator))
   \<and> oprjoin (sample_row 1 500 INT4OID INT4OID BOOLOID 500 501 65 101 105) = 105
   \<and> oprjoin (sample_row 1 500 INT4OID INT4OID BOOLOID 500 501 65 101 0) = InvalidOid
   \<and> oprrest (sample_row 1 500 INT4OID INT4OID BOOLOID 500 501 65 101 0) = 101
   \<and> (t_values (sample_row 1 500 INT4OID INT4OID BOOLOID 500 501 65 101 0))
        [14 := ObjectIdGetDatum 105] =
       t_values (sample_row 1 500 INT4OID INT4OID BOOLOID 500 501 65 101 105)"
proof -
  let ?old = "sample_row 1 500 INT4OID INT4OID BOOLOID 500 501 65 101 105"
  let ?new = "sample_row 1 500 INT4OID INT4OID BOOLOID 500 501 65 101 0"
  let ?stmt = "sample_alter ''='' 2 [sample_option_none ''join'']"
  have ev: "CatalogTupleUpdate_call 1 ?new
      \<in> set (fst (AlterOperator sample_env ?stmt sample_pg_operator))"
    by (simp add: sample_alter_eq_join_none)
  have opts: "\<exists>d \<in> set (options ?stmt). defname d = ''join''"
    "\<forall>d \<in> set (options ?stmt). defname d = ''join'' \<longrightarrow> arg d = None"
    by (simp_all add: sample_alter_def sample_option_none_def)
  have cleared: "oprjoin ?new = InvalidOid"
    using AlterOperator_partial_update
      [of _ _ _ _ _ _ _ sample_env ?stmt sample_pg_operator 500 ?old 1 ?new, THEN conjunct2,
       THEN conjunct1]
      ev sample_found_eq opts
    by simp
  have "oprjoin ?old = 105" "oprrest ?new = 101"
    "(t_values ?new)[14 := ObjectIdGetDatum 105] = t_values ?old"
    by (simp_all add: sample_row_def attr_defs oid_defs)
  with ev cleared show ?thesis by simp
qed

subsection \<open>Alteration: clearing an estimator\<close>



subsection \<open>Alteration: options that cannot be changed\<close>

text \<open>
  C6, as the source has it. A statement with an option that \<^verbatim>\<open>CREATE OPERATOR\<close>
  knows and that is neither \<^verbatim>\<open>restrict\<close> nor \<^verbatim>\<open>join\<close> always fails, and it
  updates nothing. The error is "cannot be changed" when the loop gets as far as that
  option, that is when the options before it were read without error, and the option's
  own value is absent or reads as a qualified name (the value is read before the name
  of the option is looked at). That error differs from "not recognized" in its message;
  both carry \<^verbatim>\<open>ERRCODE_SYNTAX_ERROR\<close>.
\<close>

theorem AlterOperator_immutable_option:
  "(d \<in> set (options stmt) \<and> AlterOperator_immutable (defname d) \<longrightarrow>
      (\<exists>e. snd (AlterOperator env stmt s) = Inl e) \<and>
      CatalogTupleUpdate_call otid new \<notin> set (fst (AlterOperator env stmt s)))
   \<and> (LookupOperWithArgs env (opername stmt) False s = Inr oprId \<and>
       syscache_OPEROID env s oprId = Some tup \<and>
       options stmt = pre @ d # post \<and>
       snd (AlterOperator_foreach env AlterOperator_init pre) = Inr v \<and>
       AlterOperator_immutable (defname d) \<and>
       (arg d = None \<or> (\<exists>n. defGetQualifiedName env d = Inr n)) \<longrightarrow>
         snd (AlterOperator env stmt s) = Inl (cannot_be_changed (defname d)))
   \<and> cannot_be_changed k \<noteq> not_recognized ERROR k'
   \<and> elevel (cannot_be_changed k) = ERROR
   \<and> sqlerrcode (cannot_be_changed k) = ERRCODE_SYNTAX_ERROR
   \<and> sqlerrcode (not_recognized ERROR k') = ERRCODE_SYNTAX_ERROR"
proof -
  have fails: "(\<exists>e. snd (AlterOperator env stmt s) = Inl e) \<and>
      CatalogTupleUpdate_call otid new \<notin> set (fst (AlterOperator env stmt s))"
    if a: "d \<in> set (options stmt) \<and> AlterOperator_immutable (defname d)"
  proof -
    from a AlterOperator_immutable_other [of "defname d"]
      AlterOperator_foreach_other_key [of d "options stmt" env AlterOperator_init]
    obtain e' where "snd (AlterOperator_foreach env AlterOperator_init (options stmt)) = Inl e'"
      by blast
    from AlterOperator_fails_before_checks [OF this] AlterOperator_no_update_on_failure [OF this]
    show ?thesis by blast
  qed
  have which: "snd (AlterOperator env stmt s) = Inl (cannot_be_changed (defname d))"
    if a: "LookupOperWithArgs env (opername stmt) False s = Inr oprId \<and>
       syscache_OPEROID env s oprId = Some tup \<and>
       options stmt = pre @ d # post \<and>
       snd (AlterOperator_foreach env AlterOperator_init pre) = Inr v \<and>
       AlterOperator_immutable (defname d) \<and>
       (arg d = None \<or> (\<exists>n. defGetQualifiedName env d = Inr n))"
  proof -
    from a have "AlterOperator_defel env v d = raise (cannot_be_changed (defname d))"
      using AlterOperator_defel_immutable by blast
    with a have "snd (AlterOperator_foreach env AlterOperator_init (options stmt)) =
        Inl (cannot_be_changed (defname d))"
      using AlterOperator_foreach_append [of env AlterOperator_init pre v "d # post"]
      by simp
    with a show ?thesis
      by (simp add: AlterOperator_def snd_and_then SearchSysCache1_def)
  qed
  have distinct: "cannot_be_changed k \<noteq> not_recognized ERROR k'"
    "elevel (cannot_be_changed k) = ERROR"
    "sqlerrcode (cannot_be_changed k) = ERRCODE_SYNTAX_ERROR"
    "sqlerrcode (not_recognized ERROR k') = ERRCODE_SYNTAX_ERROR"
    by (simp_all add: cannot_be_changed_def not_recognized_def ereport_def)
  from fails which distinct show ?thesis by blast
qed

text \<open>
  In the sample: \<^verbatim>\<open>hashes\<close> alone, and \<^verbatim>\<open>merges\<close> after a \<^verbatim>\<open>restrict\<close> option.
\<close>

theorem AlterOperator_immutable_option_witness:
  "snd (AlterOperator sample_env (sample_alter ''='' 2 [sample_option_none ''hashes''])
          sample_pg_operator) = Inl (cannot_be_changed ''hashes'')
   \<and> snd (AlterOperator sample_env
            (sample_alter ''='' 2 [sample_option ''restrict'' ''eqsel'',
                                   sample_option ''merges'' ''true''])
            sample_pg_operator) = Inl (cannot_be_changed ''merges'')"
proof -
  have imm: "AlterOperator_immutable ''hashes''" "AlterOperator_immutable ''merges''"
    by (simp_all add: AlterOperator_immutable_def)
  have a: "snd (AlterOperator sample_env (sample_alter ''='' 2 [sample_option_none ''hashes''])
          sample_pg_operator) = Inl (cannot_be_changed (defname (sample_option_none ''hashes'')))"
    using AlterOperator_immutable_option
      [of "sample_option_none ''hashes''" "sample_alter ''='' 2 [sample_option_none ''hashes'']"
          sample_env sample_pg_operator _ _ 500 _ "[]" "[]" AlterOperator_init,
       THEN conjunct2, THEN conjunct1]
      sample_found_eq imm
    by (simp add: sample_alter_def sample_option_none_def)
  have pre: "snd (AlterOperator_foreach sample_env AlterOperator_init
                    [sample_option ''restrict'' ''eqsel'']) =
             Inr \<lparr>restrictionName = [''eqsel''], joinName = [],
                  updateRestriction = True, updateJoin = False\<rparr>"
    by (simp add: sample_all_defs AlterOperator_defel_def AlterOperator_init_def run_defs)
  have b: "snd (AlterOperator sample_env
            (sample_alter ''='' 2 [sample_option ''restrict'' ''eqsel'',
                                   sample_option ''merges'' ''true''])
            sample_pg_operator) =
        Inl (cannot_be_changed (defname (sample_option ''merges'' ''true'')))"
    using AlterOperator_immutable_option
      [of "sample_option ''merges'' ''true''"
          "sample_alter ''='' 2 [sample_option ''restrict'' ''eqsel'',
                                 sample_option ''merges'' ''true'']"
          sample_env sample_pg_operator _ _ 500 _ "[sample_option ''restrict'' ''eqsel'']" "[]",
       THEN conjunct2, THEN conjunct1]
      sample_found_eq imm pre
    by (simp add: sample_alter_def sample_option_def sample_env_def
        sample_defGetQualifiedName_def)
  from a b show ?thesis
    by (simp add: sample_option_def sample_option_none_def)
qed

text \<open>
  C6 as the spec words it fails: when an unknown option comes before the one that
  cannot be changed, the statement fails with "not recognized".
\<close>

theorem AlterOperator_immutable_option_counterexample:
  "AlterOperator_immutable ''hashes''
   \<and> snd (AlterOperator sample_env
            (sample_alter ''='' 2 [sample_option_none ''foo'', sample_option_none ''hashes''])
            sample_pg_operator) = Inl (not_recognized ERROR ''foo'')
   \<and> not_recognized ERROR ''foo'' \<noteq> cannot_be_changed ''hashes''"
  by (simp add: sample_all_defs alter_eval_defs attr_defs oid_defs AlterOperator_immutable_def
      not_recognized_def cannot_be_changed_def ereport_def)

subsection \<open>Definition: further auxiliary facts\<close>

lemma DefineOperator_events:
  assumes "ev \<in> set (fst (DefineOperator env nm ps s))"
  shows "ev \<in> set (fst (DefineOperator_foreach env DefineOperator_init ps)) \<or>
         (\<exists>ns n v t1 t2. OidIsValid t2 \<and>
            ev \<in> set (fst (DefineOperator_create env ns n v t1 t2 s)))"
  using assms
  unfolding DefineOperator_def DefineOperator_checked_def
  by (auto simp: Let_def dest!: in_and_then split: if_splits prod.splits)

lemmas define_eval_defs = DefineOperator_defel_def DefineOperator_init_def
  DefineOperator_typeId_def run_defs

lemma sample_define_none:
  "DefineOperator_reaches_types sample_env [''===''] [sample_option ''function'' ''int4eq'']
     2200 ''==='' []
     (DefineOperator_init\<lparr>functionName := [''int4eq'']\<rparr>) InvalidOid InvalidOid"
  by (simp add: DefineOperator_reaches_types_def sample_all_defs define_eval_defs)

lemma sample_define_left:
  "DefineOperator_reaches_types sample_env [''===='']
     [sample_option ''function'' ''int4eq'', sample_type_option ''leftarg'' ''int4'']
     2200 ''===='' []
     (DefineOperator_init\<lparr>functionName := [''int4eq''],
        typeName1 := Some \<lparr>names = [''int4''], setof = False\<rparr>\<rparr>) INT4OID InvalidOid"
  by (simp add: DefineOperator_reaches_types_def sample_all_defs define_eval_defs
      sample_type_option_def)

lemma sample_define_binary:
  "DefineOperator_reaches_types sample_env [''~~'']
     [sample_option ''function'' ''int4eq'', sample_type_option ''leftarg'' ''int4'',
      sample_type_option ''rightarg'' ''int4'']
     2200 ''~~'' []
     (DefineOperator_init\<lparr>functionName := [''int4eq''],
        typeName1 := Some \<lparr>names = [''int4''], setof = False\<rparr>,
        typeName2 := Some \<lparr>names = [''int4''], setof = False\<rparr>\<rparr>) INT4OID INT4OID"
  by (simp add: DefineOperator_reaches_types_def sample_all_defs define_eval_defs
      sample_type_option_def)

lemma sample_define_prefix:
  "DefineOperator_reaches_types sample_env [''@'']
     [sample_option ''function'' ''int4um'', sample_type_option ''rightarg'' ''int4'']
     2200 ''@'' []
     (DefineOperator_init\<lparr>functionName := [''int4um''],
        typeName2 := Some \<lparr>names = [''int4''], setof = False\<rparr>\<rparr>) InvalidOid INT4OID"
  by (simp add: DefineOperator_reaches_types_def sample_all_defs define_eval_defs
      sample_type_option_def)

lemma DefineOperator_resolved:
  assumes "QualifiedNameGetCreationNamespace env nm = Inr (ns, n)"
    and "pg_namespace_aclcheck env ns (GetUserId env) ACL_CREATE = ACLCHECK_OK"
  shows "DefineOperator env nm ps s =
           and_then (DefineOperator_foreach env DefineOperator_init ps)
             (\<lambda>v. DefineOperator_checked env ns n v s)"
  using assms by (simp add: DefineOperator_def lift_def and_then_def done_with_def)

lemma DefineOperator_foreach_recognized:
  "fst (DefineOperator_foreach env v
          (filter (\<lambda>d. DefineOperator_recognized (defname d)) ps)) = []"
proof (induction ps arbitrary: v)
  case Nil
  then show ?case by simp
next
  case (Cons d ps)
  then show ?case
    by (simp add: fst_and_then fst_DefineOperator_defel_recognized split: sum.splits)
qed

lemma DefineOperator_unrecognized_other:
  "\<not> DefineOperator_recognized k \<Longrightarrow>
   k \<noteq> ''restrict'' \<and> k \<noteq> ''join'' \<and> \<not> AlterOperator_immutable k"
  by (auto simp: DefineOperator_recognized_def AlterOperator_immutable_def)

lemma AlterOperator_defel_unrecognized:
  assumes "\<not> DefineOperator_recognized (defname d)"
    and "arg d = None \<or> (\<exists>n. defGetQualifiedName env d = Inr n)"
  shows "AlterOperator_defel env v d = raise (not_recognized ERROR (defname d))"
  using assms
  by (auto simp: AlterOperator_defel_def DefineOperator_recognized_def not_recognized_def
      run_defs)

lemma sample_define_prefix_run:
  "fst (DefineOperator sample_env [''@'']
     [sample_option ''function'' ''int4um'', sample_type_option ''rightarg'' ''int4'']
     sample_pg_operator) =
   [LookupFuncName_call [''int4um''] 1 [INT4OID] False,
    OperatorCreate_call
       \<lparr>oc_operatorName = ''@'', oc_operatorNamespace = 2200, oc_leftTypeId = InvalidOid,
        oc_rightTypeId = INT4OID, oc_procedureId = 212, oc_commutatorName = [],
        oc_negatorName = [], oc_restrictionId = InvalidOid, oc_joinId = InvalidOid,
        oc_canMerge = False, oc_canHash = False\<rparr>]"
  by (simp add: DefineOperator_def DefineOperator_checked_def DefineOperator_create_def
      DefineOperator_lookup_args_def LookupFuncName_def OperatorCreate_def
      sample_all_defs define_eval_defs sample_type_option_def oid_defs Let_def)

lemma sample_define_prefix_succeeds:
  "\<exists>r. snd (DefineOperator sample_env [''@'']
     [sample_option ''function'' ''int4um'', sample_type_option ''rightarg'' ''int4'']
     sample_pg_operator) = Inr r"
  by (simp add: DefineOperator_def DefineOperator_checked_def DefineOperator_create_def
      DefineOperator_lookup_args_def LookupFuncName_def OperatorCreate_def
      sample_all_defs define_eval_defs sample_type_option_def oid_defs Let_def)

lemma sample_unrecognized [simp]:
  "\<not> DefineOperator_recognized ''foo''" "DefineOperator_recognized ''function''"
  "DefineOperator_recognized ''rightarg''"
  by (simp_all add: DefineOperator_recognized_def)

lemma DefineOperator_defel_frame:
  assumes "snd (DefineOperator_defel env v e) = Inr v'"
    and "DefineOperator_slot (defname e) \<noteq> k"
  shows "DefineOperator_slot_value k v' = DefineOperator_slot_value k v"
proof (cases "DefineOperator_recognized (defname e)")
  case False
  with assms show ?thesis by (simp add: DefineOperator_defel_unrecognized)
next
  case True
  with assms show ?thesis
    by (auto simp: DefineOperator_recognized_def DefineOperator_defel_def
        DefineOperator_slot_def DefineOperator_slot_value_def snd_and_then
        split: sum.splits if_splits)
qed

lemma DefineOperator_defel_written:
  assumes "snd (DefineOperator_defel env v d) = Inr v'"
    and "snd (DefineOperator_defel env w d) = Inr w'"
    and "DefineOperator_recognized (defname d)"
  shows "DefineOperator_slot_value (DefineOperator_slot (defname d)) v' =
         DefineOperator_slot_value (DefineOperator_slot (defname d)) w'"
  using assms
  by (auto simp: DefineOperator_recognized_def DefineOperator_defel_def
      DefineOperator_slot_def DefineOperator_slot_value_def snd_and_then
      split: sum.splits if_splits)

lemma DefineOperator_foreach_append:
  "DefineOperator_foreach env v (xs @ ys) =
   and_then (DefineOperator_foreach env v xs) (\<lambda>v'. DefineOperator_foreach env v' ys)"
proof (induction xs arbitrary: v)
  case Nil
  then show ?case by simp
next
  case (Cons d xs)
  then show ?case
    by (cases "DefineOperator_defel env v d")
       (auto simp: and_then_def split: sum.splits prod.splits)
qed

lemma DefineOperator_foreach_frame:
  assumes "snd (DefineOperator_foreach env v ps) = Inr v'"
    and "\<forall>e \<in> set ps. DefineOperator_slot (defname e) \<noteq> k"
  shows "DefineOperator_slot_value k v' = DefineOperator_slot_value k v"
  using assms
proof (induction ps arbitrary: v)
  case Nil
  then show ?case by simp
next
  case (Cons d ps)
  from Cons.prems(1) obtain v1 where
    step: "snd (DefineOperator_defel env v d) = Inr v1" and
    rest: "snd (DefineOperator_foreach env v1 ps) = Inr v'"
    by (auto simp: snd_and_then split: sum.splits)
  from Cons.prems(2) have "DefineOperator_slot (defname d) \<noteq> k"
    "\<forall>e \<in> set ps. DefineOperator_slot (defname e) \<noteq> k"
    by simp_all
  with Cons.IH [OF rest] DefineOperator_defel_frame [OF step] show ?case
    by simp
qed

lemma DefineOperator_foreach_last:
  assumes "snd (DefineOperator_foreach env v0 (pre @ d # post)) = Inr v"
    and "\<forall>e \<in> set post. DefineOperator_slot (defname e) \<noteq> DefineOperator_slot (defname d)"
  shows "\<exists>u u'. snd (DefineOperator_foreach env v0 pre) = Inr u \<and>
           snd (DefineOperator_defel env u d) = Inr u' \<and>
           DefineOperator_slot_value (DefineOperator_slot (defname d)) v =
           DefineOperator_slot_value (DefineOperator_slot (defname d)) u'"
proof -
  from assms(1) obtain u where
    pre: "snd (DefineOperator_foreach env v0 pre) = Inr u" and
    r1: "snd (DefineOperator_foreach env u (d # post)) = Inr v"
    by (auto simp: DefineOperator_foreach_append snd_and_then split: sum.splits)
  from r1 obtain u' where
    step: "snd (DefineOperator_defel env u d) = Inr u'" and
    rest: "snd (DefineOperator_foreach env u' post) = Inr v"
    by (auto simp: snd_and_then split: sum.splits)
  from DefineOperator_foreach_frame [OF rest assms(2)] pre step show ?thesis
    by blast
qed

lemma DefineOperator_slot_merges:
  "DefineOperator_slot k = 0 \<longleftrightarrow> k = ''merges'' \<or> DefineOperator_merge_alias k"
  by (simp add: DefineOperator_slot_def DefineOperator_merge_alias_def)

lemma DefineOperator_defel_merges:
  "defname d = ''merges'' \<Longrightarrow> snd (DefineOperator_defel env w d) = Inr w' \<Longrightarrow>
   defGetBoolean env d = Inr (canMerge w')"
  by (auto simp: DefineOperator_defel_def snd_and_then split: sum.splits)

lemma DefineOperator_function_first:
  assumes "QualifiedNameGetCreationNamespace env nm = Inr (ns, n)"
    and "pg_namespace_aclcheck env ns (GetUserId env) ACL_CREATE = ACLCHECK_OK"
    and "DefineOperator_foreach env DefineOperator_init ps = (ws, Inr v)"
    and "functionName v = []"
  shows "DefineOperator env nm ps s = (ws, Inl function_must_be_specified)"
  using assms
  by (simp add: DefineOperator_resolved DefineOperator_checked_def
      function_must_be_specified_def and_then_def raise_def)

lemma DefineOperator_warning_reached:
  assumes "QualifiedNameGetCreationNamespace env nm = Inr (ns, n)"
    and "pg_namespace_aclcheck env ns (GetUserId env) ACL_CREATE = ACLCHECK_OK"
    and "snd (DefineOperator_foreach env DefineOperator_init front) = Inr u"
    and "\<not> DefineOperator_recognized (defname d)"
  shows "\<exists>rest. fst (DefineOperator env nm (front @ d # rear) s) =
           fst (DefineOperator_foreach env DefineOperator_init front) @
           Report (not_recognized WARNING (defname d)) # rest"
proof -
  have loop: "fst (DefineOperator_foreach env DefineOperator_init (front @ d # rear)) =
      fst (DefineOperator_foreach env DefineOperator_init front) @
      Report (not_recognized WARNING (defname d)) # fst (DefineOperator_foreach env u rear)"
    using assms(3,4)
    by (simp add: DefineOperator_foreach_append fst_and_then DefineOperator_defel_unrecognized)
  show ?thesis
    by (simp add: DefineOperator_resolved [OF assms(1,2)] fst_and_then loop split: sum.splits)
qed

subsection \<open>Definition: the operand types\<close>

text \<open>
  C4, as the source has it. When a run of \<^verbatim>\<open>DefineOperator\<close> reaches the checks of
  the operand types, which needs a function to have been named (the check of lines 160
  to 163 comes first), it fails with "operator argument types must be specified" when
  neither type identifier is valid, and with "operator right argument type must be
  specified", detail "Postfix operators are not supported.", when only the left one is.
  When the name is resolved, the namespace may be used and the loop over the options
  ends without a function name, the run fails with "operator function must be
  specified", whatever the operand types are. A type that was not given has the
  identifier \<open>InvalidOid\<close>. The three reports carry
  \<^verbatim>\<open>ERRCODE_INVALID_FUNCTION_DEFINITION\<close>, with different messages; the events of the run
  are those of the loop over the options.
\<close>

theorem DefineOperator_operand_types_required:
  "(DefineOperator_reaches_types env nm ps ns n ws v typeId1 typeId2 \<and>
    \<not> OidIsValid typeId1 \<and> \<not> OidIsValid typeId2 \<longrightarrow>
      DefineOperator env nm ps s = (ws, Inl types_must_be_specified))
   \<and> (DefineOperator_reaches_types env nm ps ns n ws v typeId1 typeId2 \<and>
       OidIsValid typeId1 \<and> \<not> OidIsValid typeId2 \<longrightarrow>
      DefineOperator env nm ps s = (ws, Inl right_type_must_be_specified))
   \<and> (QualifiedNameGetCreationNamespace env nm = Inr (ns, n) \<and>
       pg_namespace_aclcheck env ns (GetUserId env) ACL_CREATE = ACLCHECK_OK \<and>
       DefineOperator_foreach env DefineOperator_init ps = (ws, Inr v) \<and>
       functionName v = [] \<longrightarrow>
      DefineOperator env nm ps s = (ws, Inl function_must_be_specified))
   \<and> sqlerrcode function_must_be_specified = ERRCODE_INVALID_FUNCTION_DEFINITION
   \<and> message function_must_be_specified \<noteq> message types_must_be_specified
   \<and> message function_must_be_specified \<noteq> message right_type_must_be_specified
   \<and> DefineOperator_typeId env None = Inr InvalidOid
   \<and> \<not> OidIsValid InvalidOid
   \<and> sqlerrcode types_must_be_specified = ERRCODE_INVALID_FUNCTION_DEFINITION
   \<and> sqlerrcode right_type_must_be_specified = ERRCODE_INVALID_FUNCTION_DEFINITION
   \<and> message types_must_be_specified \<noteq> message right_type_must_be_specified
   \<and> detail types_must_be_specified = None
   \<and> detail right_type_must_be_specified = Some ''Postfix operators are not supported.''"
proof -
  have both: "DefineOperator env nm ps s = (ws, Inl types_must_be_specified)"
    if "DefineOperator_reaches_types env nm ps ns n ws v typeId1 typeId2 \<and>
        \<not> OidIsValid typeId1 \<and> \<not> OidIsValid typeId2"
    using that DefineOperator_reached [of env nm ps ns n ws v typeId1 typeId2 s]
    by (simp add: types_must_be_specified_def)
  have right: "DefineOperator env nm ps s = (ws, Inl right_type_must_be_specified)"
    if "DefineOperator_reaches_types env nm ps ns n ws v typeId1 typeId2 \<and>
        OidIsValid typeId1 \<and> \<not> OidIsValid typeId2"
    using that DefineOperator_reached [of env nm ps ns n ws v typeId1 typeId2 s]
    by (simp add: right_type_must_be_specified_def)
  have first: "DefineOperator env nm ps s = (ws, Inl function_must_be_specified)"
    if "QualifiedNameGetCreationNamespace env nm = Inr (ns, n) \<and>
       pg_namespace_aclcheck env ns (GetUserId env) ACL_CREATE = ACLCHECK_OK \<and>
       DefineOperator_foreach env DefineOperator_init ps = (ws, Inr v) \<and>
       functionName v = []"
    using that DefineOperator_function_first [of env nm ns n ps ws v s]
    by simp
  have reports: "sqlerrcode function_must_be_specified = ERRCODE_INVALID_FUNCTION_DEFINITION"
    "message function_must_be_specified \<noteq> message types_must_be_specified"
    "message function_must_be_specified \<noteq> message right_type_must_be_specified"
    by (simp_all add: function_must_be_specified_def types_must_be_specified_def
        right_type_must_be_specified_def ereport_def)
  have rest: "DefineOperator_typeId env None = Inr InvalidOid" "\<not> OidIsValid InvalidOid"
    "sqlerrcode types_must_be_specified = ERRCODE_INVALID_FUNCTION_DEFINITION"
    "sqlerrcode right_type_must_be_specified = ERRCODE_INVALID_FUNCTION_DEFINITION"
    "message types_must_be_specified \<noteq> message right_type_must_be_specified"
    "detail types_must_be_specified = None"
    "detail right_type_must_be_specified = Some ''Postfix operators are not supported.''"
    by (simp_all add: DefineOperator_typeId_def OidIsValid_def types_must_be_specified_def
        right_type_must_be_specified_def ereport_def)
  from both right first reports rest show ?thesis by blast
qed

text \<open>
  In the sample: a definition that names only a function, one that names a function
  and a left operand type, and one that gives both operand types and no function.
\<close>

theorem DefineOperator_operand_types_required_witness:
  "DefineOperator sample_env [''===''] [sample_option ''function'' ''int4eq'']
     sample_pg_operator = ([], Inl types_must_be_specified)
   \<and> DefineOperator sample_env [''===='']
        [sample_option ''function'' ''int4eq'', sample_type_option ''leftarg'' ''int4'']
        sample_pg_operator = ([], Inl right_type_must_be_specified)
   \<and> DefineOperator sample_env [''~~'']
        [sample_type_option ''leftarg'' ''int4'', sample_type_option ''rightarg'' ''int4'']
        sample_pg_operator = ([], Inl function_must_be_specified)"
proof -
  let ?ps = "[sample_type_option ''leftarg'' ''int4'', sample_type_option ''rightarg'' ''int4'']"
  let ?v = "DefineOperator_init\<lparr>typeName1 := Some \<lparr>names = [''int4''], setof = False\<rparr>,
              typeName2 := Some \<lparr>names = [''int4''], setof = False\<rparr>\<rparr>"
  have ns: "QualifiedNameGetCreationNamespace sample_env [''~~''] = Inr (2200, ''~~'')"
    by (simp add: sample_env_def)
  have acl: "pg_namespace_aclcheck sample_env 2200 (GetUserId sample_env) ACL_CREATE =
      ACLCHECK_OK"
    by (simp add: sample_env_def)
  have loop: "DefineOperator_foreach sample_env DefineOperator_init ?ps = ([], Inr ?v)"
    by (simp add: sample_all_defs define_eval_defs sample_type_option_def)
  have nofun: "functionName ?v = []"
    by (simp add: DefineOperator_init_def)
  from DefineOperator_operand_types_required
          [THEN conjunct1, rule_format, OF conjI [OF sample_define_none]]
  have a: "DefineOperator sample_env [''===''] [sample_option ''function'' ''int4eq'']
     sample_pg_operator = ([], Inl types_must_be_specified)"
    by (simp add: oid_defs)
  from DefineOperator_operand_types_required
          [THEN conjunct2, THEN conjunct1, rule_format, OF conjI [OF sample_define_left]]
  have b: "DefineOperator sample_env [''===='']
        [sample_option ''function'' ''int4eq'', sample_type_option ''leftarg'' ''int4'']
        sample_pg_operator = ([], Inl right_type_must_be_specified)"
    by (simp add: oid_defs)
  from DefineOperator_operand_types_required
          [THEN conjunct2, THEN conjunct2, THEN conjunct1, rule_format,
           OF conjI [OF ns conjI [OF acl conjI [OF loop nofun]]]]
  have c: "DefineOperator sample_env [''~~''] ?ps sample_pg_operator =
      ([], Inl function_must_be_specified)" .
  from a b c show ?thesis by simp
qed

text \<open>
  C4 as the spec words it fails: with no operand type and no function, and with a left
  operand type and no function, the report is "operator function must be specified",
  not one of the two about the types. With a right operand type and no function the
  report is the same.
\<close>

theorem DefineOperator_operand_types_required_counterexample:
  "DefineOperator sample_env [''===''] [] sample_pg_operator =
     ([], Inl function_must_be_specified)
   \<and> snd (DefineOperator_foreach sample_env DefineOperator_init []) = Inr DefineOperator_init
   \<and> DefineOperator_typeId sample_env (typeName1 DefineOperator_init) = Inr InvalidOid
   \<and> DefineOperator_typeId sample_env (typeName2 DefineOperator_init) = Inr InvalidOid
   \<and> message function_must_be_specified \<noteq> message types_must_be_specified
   \<and> DefineOperator sample_env [''===''] [sample_type_option ''leftarg'' ''int4'']
       sample_pg_operator = ([], Inl function_must_be_specified)
   \<and> message function_must_be_specified \<noteq> message right_type_must_be_specified
   \<and> DefineOperator sample_env [''===''] [sample_type_option ''rightarg'' ''int4'']
       sample_pg_operator = ([], Inl function_must_be_specified)"
  by (simp add: DefineOperator_def DefineOperator_checked_def sample_all_defs define_eval_defs
      sample_type_option_def function_must_be_specified_def types_must_be_specified_def
      right_type_must_be_specified_def ereport_def)

subsection \<open>Definition: the lookup of the function\<close>

text \<open>
  C8, as the source has it. When the right operand type is valid, which is what the
  checks of the operand types leave, the argument array of the lookup holds the valid ones
  among the left and the right type, in that order, and the number of arguments is their
  count: 1 or 2, and with 1 the array holds the right type. A run that reaches these
  checks, passes them and passes the privilege checks on the operand types that were
  given (lines 188 to 200) looks up the operator's function next, with these arguments,
  \<open>missing_ok\<close> false. No function lookup of any run of \<^verbatim>\<open>DefineOperator\<close> has 0 arguments, and each
  has as many types as its number of arguments says.
\<close>

theorem DefineOperator_lookup_arity:
  "(OidIsValid typeId2 \<longrightarrow>
      DefineOperator_lookup_args typeId1 typeId2 =
        (filter OidIsValid [typeId1, typeId2], length (filter OidIsValid [typeId1, typeId2])) \<and>
      (snd (DefineOperator_lookup_args typeId1 typeId2) = 1 \<or>
       snd (DefineOperator_lookup_args typeId1 typeId2) = 2) \<and>
      (snd (DefineOperator_lookup_args typeId1 typeId2) = 1 \<longrightarrow>
         fst (DefineOperator_lookup_args typeId1 typeId2) = [typeId2]))
   \<and> (DefineOperator_reaches_types env nm ps ns n ws v typeId1 typeId2 \<and>
       OidIsValid typeId2 \<and> DefineOperator_types_usable env v typeId1 typeId2 \<longrightarrow>
        (\<exists>rest. fst (DefineOperator env nm ps s) =
           ws @ LookupFuncName_call (functionName v)
                  (length (filter OidIsValid [typeId1, typeId2]))
                  (filter OidIsValid [typeId1, typeId2]) False # rest))
   \<and> (LookupFuncName_call f k ts ok \<in> set (fst (DefineOperator env nm ps s)) \<longrightarrow>
        k \<noteq> 0 \<and> length ts = k)"
proof -
  have args: "DefineOperator_lookup_args typeId1 typeId2 =
        (filter OidIsValid [typeId1, typeId2], length (filter OidIsValid [typeId1, typeId2])) \<and>
      (snd (DefineOperator_lookup_args typeId1 typeId2) = 1 \<or>
       snd (DefineOperator_lookup_args typeId1 typeId2) = 2) \<and>
      (snd (DefineOperator_lookup_args typeId1 typeId2) = 1 \<longrightarrow>
         fst (DefineOperator_lookup_args typeId1 typeId2) = [typeId2])"
    if "OidIsValid typeId2" for typeId1 typeId2
    using that by (simp add: DefineOperator_lookup_args_def)
  have called: "\<exists>rest. fst (DefineOperator env nm ps s) =
           ws @ LookupFuncName_call (functionName v)
                  (length (filter OidIsValid [typeId1, typeId2]))
                  (filter OidIsValid [typeId1, typeId2]) False # rest"
    if a: "DefineOperator_reaches_types env nm ps ns n ws v typeId1 typeId2 \<and>
       OidIsValid typeId2 \<and> DefineOperator_types_usable env v typeId1 typeId2"
  proof -
    from a fst_DefineOperator_create [of env v typeId1 typeId2 ns n s]
    obtain rest where "fst (DefineOperator_create env ns n v typeId1 typeId2 s) =
           LookupFuncName_call (functionName v)
                  (snd (DefineOperator_lookup_args typeId1 typeId2))
                  (fst (DefineOperator_lookup_args typeId1 typeId2)) False # rest"
      by blast
    with a args [of typeId2 typeId1]
      DefineOperator_reached [of env nm ps ns n ws v typeId1 typeId2 s]
    show ?thesis by simp
  qed
  have never0: "k \<noteq> 0 \<and> length ts = k"
    if a: "LookupFuncName_call f k ts ok \<in> set (fst (DefineOperator env nm ps s))"
  proof -
    from DefineOperator_events [OF a] DefineOperator_foreach_events [of _ env DefineOperator_init ps]
    obtain ns' n' v' t1 t2 where t2: "OidIsValid t2" and
      ev: "LookupFuncName_call f k ts ok \<in> set (fst (DefineOperator_create env ns' n' v' t1 t2 s))"
      by blast
    from DefineOperator_create_events [OF ev] args [OF t2, of t1]
      ValidateRestrictionEstimator_lookups [of f k ts ok env "restrictionName v'"]
      ValidateJoinEstimator_lookups [of f k ts ok env "joinName v'"]
    show ?thesis by auto
  qed
  from args called never0 show ?thesis by blast
qed

text \<open>
  In the sample: a binary operator on \<^verbatim>\<open>int4\<close>, and a prefix operator on \<^verbatim>\<open>int4\<close>.
\<close>

theorem DefineOperator_lookup_arity_witness:
  "(\<exists>rest. fst (DefineOperator sample_env [''~~'']
       [sample_option ''function'' ''int4eq'', sample_type_option ''leftarg'' ''int4'',
        sample_type_option ''rightarg'' ''int4''] sample_pg_operator) =
      LookupFuncName_call [''int4eq''] 2 [INT4OID, INT4OID] False # rest)
   \<and> (\<exists>rest. fst (DefineOperator sample_env [''@'']
       [sample_option ''function'' ''int4um'', sample_type_option ''rightarg'' ''int4'']
       sample_pg_operator) =
      LookupFuncName_call [''int4um''] 1 [INT4OID] False # rest)"
proof -
  have usable: "DefineOperator_types_usable sample_env v t1 t2" for v t1 t2
    by (simp add: DefineOperator_types_usable_def sample_env_def)
  have valid: "OidIsValid INT4OID" "\<not> OidIsValid InvalidOid"
    by (simp_all add: oid_defs)
  from DefineOperator_lookup_arity
         [THEN conjunct2, THEN conjunct1, rule_format,
          OF conjI [OF sample_define_binary conjI [OF valid(1) usable]]]
       DefineOperator_lookup_arity
         [THEN conjunct2, THEN conjunct1, rule_format,
          OF conjI [OF sample_define_prefix conjI [OF valid(1) usable]]]
  show ?thesis
    by (simp add: valid DefineOperator_init_def numeral_2_eq_2)
qed

text \<open>
  C8 as the spec words it fails: a definition that passes the checks of the operand
  types, by a caller without the \<^verbatim>\<open>USAGE\<close> privilege on \<^verbatim>\<open>int4\<close>, stops at the
  privilege check; no function is looked up.
\<close>

theorem DefineOperator_lookup_arity_counterexample:
  "DefineOperator_reaches_types
       (sample_env\<lparr>pg_type_aclcheck := \<lambda>_ _ _. ACLCHECK_NO_PRIV\<rparr>) [''~~'']
       [sample_option ''function'' ''int4eq'', sample_type_option ''leftarg'' ''int4'',
        sample_type_option ''rightarg'' ''int4'']
       2200 ''~~'' []
       (DefineOperator_init\<lparr>functionName := [''int4eq''],
          typeName1 := Some \<lparr>names = [''int4''], setof = False\<rparr>,
          typeName2 := Some \<lparr>names = [''int4''], setof = False\<rparr>\<rparr>) INT4OID INT4OID
   \<and> OidIsValid INT4OID
   \<and> DefineOperator (sample_env\<lparr>pg_type_aclcheck := \<lambda>_ _ _. ACLCHECK_NO_PRIV\<rparr>) [''~~'']
       [sample_option ''function'' ''int4eq'', sample_type_option ''leftarg'' ''int4'',
        sample_type_option ''rightarg'' ''int4''] sample_pg_operator =
       ([], Inl (ereport ERROR ERRCODE_INSUFFICIENT_PRIVILEGE
                   ''permission denied for type %u'' [fmt_u INT4OID]))"
  by (simp add: DefineOperator_reaches_types_def DefineOperator_def DefineOperator_checked_def
      DefineOperator_create_def sample_all_defs define_eval_defs sample_type_option_def
      oid_defs ereport_def Let_def)

subsection \<open>Options that are not recognized\<close>

text \<open>
  C5, as the source has it. In \<^verbatim>\<open>DefineOperator\<close> an option that is not recognized
  is reported at level \<^verbatim>\<open>WARNING\<close> and leaves the variables of the loop as they were.
  The outcome of the whole run is the one of the run without these options. When the
  name is resolved and the namespace may be used, the warning about such an option is
  among the events if the options before it are read without error, right after their
  events; and if the whole loop ends, the events are the warnings, in the order of
  the options, followed by the events of the run without these options. In
  \<^verbatim>\<open>AlterOperator\<close> a statement with such an option fails and updates nothing; the
  error is "not recognized", at level \<^verbatim>\<open>ERROR\<close>, when the operator is found, the
  options before are read without error and the option's own value is absent or reads as
  a qualified name.
\<close>

theorem DefineOperator_unrecognized_option:
  "(\<not> DefineOperator_recognized (defname d) \<longrightarrow>
      DefineOperator_defel env v d = ([Report (not_recognized WARNING (defname d))], Inr v))
   \<and> snd (DefineOperator env nm ps s) =
       snd (DefineOperator env nm (filter (\<lambda>d. DefineOperator_recognized (defname d)) ps) s)
   \<and> (QualifiedNameGetCreationNamespace env nm = Inr (ns, n) \<and>
       pg_namespace_aclcheck env ns (GetUserId env) ACL_CREATE = ACLCHECK_OK \<and>
       snd (DefineOperator_foreach env DefineOperator_init ps) = Inr v' \<longrightarrow>
         fst (DefineOperator env nm ps s) =
           map (\<lambda>d. Report (not_recognized WARNING (defname d)))
               (filter (\<lambda>d. \<not> DefineOperator_recognized (defname d)) ps)
           @ fst (DefineOperator env nm
                    (filter (\<lambda>d. DefineOperator_recognized (defname d)) ps) s))
   \<and> (QualifiedNameGetCreationNamespace env nm = Inr (ns, n) \<and>
       pg_namespace_aclcheck env ns (GetUserId env) ACL_CREATE = ACLCHECK_OK \<and>
       snd (DefineOperator_foreach env DefineOperator_init front) = Inr u \<and>
       \<not> DefineOperator_recognized (defname d) \<longrightarrow>
         (\<exists>rest. fst (DefineOperator env nm (front @ d # rear) s) =
            fst (DefineOperator_foreach env DefineOperator_init front) @
            Report (not_recognized WARNING (defname d)) # rest))
   \<and> (d \<in> set (options stmt) \<and> \<not> DefineOperator_recognized (defname d) \<longrightarrow>
        (\<exists>e. snd (AlterOperator env stmt t) = Inl e) \<and>
        CatalogTupleUpdate_call otid new \<notin> set (fst (AlterOperator env stmt t)))
   \<and> (LookupOperWithArgs env (opername stmt) False t = Inr oprId \<and>
       syscache_OPEROID env t oprId = Some tup \<and>
       options stmt = pre @ d # post \<and>
       snd (AlterOperator_foreach env AlterOperator_init pre) = Inr av \<and>
       \<not> DefineOperator_recognized (defname d) \<and>
       (arg d = None \<or> (\<exists>q. defGetQualifiedName env d = Inr q)) \<longrightarrow>
         snd (AlterOperator env stmt t) = Inl (not_recognized ERROR (defname d)))
   \<and> elevel (not_recognized WARNING k) = WARNING
   \<and> elevel (not_recognized ERROR k) = ERROR"
proof -
  let ?known = "filter (\<lambda>d. DefineOperator_recognized (defname d)) ps"
  have warn: "DefineOperator_defel env v d =
                ([Report (not_recognized WARNING (defname d))], Inr v)"
    if "\<not> DefineOperator_recognized (defname d)"
    using that by (rule DefineOperator_defel_unrecognized)
  have same: "snd (DefineOperator env nm ps s) = snd (DefineOperator env nm ?known s)"
    by (rule DefineOperator_only_foreach) (rule DefineOperator_foreach_filter)
  have trace: "fst (DefineOperator env nm ps s) =
           map (\<lambda>d. Report (not_recognized WARNING (defname d)))
               (filter (\<lambda>d. \<not> DefineOperator_recognized (defname d)) ps)
           @ fst (DefineOperator env nm ?known s)"
    if a: "QualifiedNameGetCreationNamespace env nm = Inr (ns, n) \<and>
       pg_namespace_aclcheck env ns (GetUserId env) ACL_CREATE = ACLCHECK_OK \<and>
       snd (DefineOperator_foreach env DefineOperator_init ps) = Inr v'"
  proof -
    from a have loop: "snd (DefineOperator_foreach env DefineOperator_init ps) = Inr v'"
      by simp
    with DefineOperator_foreach_filter [of env DefineOperator_init ps]
    have loop': "snd (DefineOperator_foreach env DefineOperator_init ?known) = Inr v'"
      by simp
    from a have r: "DefineOperator env nm qs s =
           and_then (DefineOperator_foreach env DefineOperator_init qs)
             (\<lambda>v. DefineOperator_checked env ns n v s)" for qs
      by (intro DefineOperator_resolved; simp)
    show ?thesis
      by (simp add: r fst_and_then loop loop' DefineOperator_foreach_warnings [OF loop]
          DefineOperator_foreach_recognized)
  qed
  have reached: "\<exists>rest. fst (DefineOperator env nm (front @ d # rear) s) =
            fst (DefineOperator_foreach env DefineOperator_init front) @
            Report (not_recognized WARNING (defname d)) # rest"
    if "QualifiedNameGetCreationNamespace env nm = Inr (ns, n) \<and>
       pg_namespace_aclcheck env ns (GetUserId env) ACL_CREATE = ACLCHECK_OK \<and>
       snd (DefineOperator_foreach env DefineOperator_init front) = Inr u \<and>
       \<not> DefineOperator_recognized (defname d)"
    using that DefineOperator_warning_reached [of env nm ns n front u d rear s]
    by simp
  have fails: "(\<exists>e. snd (AlterOperator env stmt t) = Inl e) \<and>
      CatalogTupleUpdate_call otid new \<notin> set (fst (AlterOperator env stmt t))"
    if a: "d \<in> set (options stmt) \<and> \<not> DefineOperator_recognized (defname d)"
  proof -
    from a DefineOperator_unrecognized_other [of "defname d"]
      AlterOperator_foreach_other_key [of d "options stmt" env AlterOperator_init]
    obtain e' where "snd (AlterOperator_foreach env AlterOperator_init (options stmt)) = Inl e'"
      by blast
    from AlterOperator_fails_before_checks [OF this] AlterOperator_no_update_on_failure [OF this]
    show ?thesis by blast
  qed
  have which: "snd (AlterOperator env stmt t) = Inl (not_recognized ERROR (defname d))"
    if a: "LookupOperWithArgs env (opername stmt) False t = Inr oprId \<and>
       syscache_OPEROID env t oprId = Some tup \<and>
       options stmt = pre @ d # post \<and>
       snd (AlterOperator_foreach env AlterOperator_init pre) = Inr av \<and>
       \<not> DefineOperator_recognized (defname d) \<and>
       (arg d = None \<or> (\<exists>q. defGetQualifiedName env d = Inr q))"
  proof -
    from a have "AlterOperator_defel env av d = raise (not_recognized ERROR (defname d))"
      using AlterOperator_defel_unrecognized by blast
    with a have "snd (AlterOperator_foreach env AlterOperator_init (options stmt)) =
        Inl (not_recognized ERROR (defname d))"
      using AlterOperator_foreach_append [of env AlterOperator_init pre av "d # post"]
      by simp
    with a show ?thesis
      by (simp add: AlterOperator_def snd_and_then SearchSysCache1_def)
  qed
  have levels: "elevel (not_recognized WARNING k) = WARNING"
    "elevel (not_recognized ERROR k) = ERROR"
    by (simp_all add: not_recognized_def ereport_def)
  from warn same trace reached fails which levels show ?thesis by blast
qed

text \<open>
  In the sample: the option \<^verbatim>\<open>foo\<close> before the definition of a prefix operator, which
  is created, and the same option in an alteration.
\<close>

theorem DefineOperator_unrecognized_option_witness:
  "DefineOperator_defel sample_env DefineOperator_init (sample_option_none ''foo'') =
     ([Report (not_recognized WARNING ''foo'')], Inr DefineOperator_init)
   \<and> fst (DefineOperator sample_env [''@'']
            [sample_option_none ''foo'', sample_option ''function'' ''int4um'',
             sample_type_option ''rightarg'' ''int4''] sample_pg_operator) =
       [Report (not_recognized WARNING ''foo''),
        LookupFuncName_call [''int4um''] 1 [INT4OID] False,
        OperatorCreate_call
          \<lparr>oc_operatorName = ''@'', oc_operatorNamespace = 2200, oc_leftTypeId = InvalidOid,
           oc_rightTypeId = INT4OID, oc_procedureId = 212, oc_commutatorName = [],
           oc_negatorName = [], oc_restrictionId = InvalidOid, oc_joinId = InvalidOid,
           oc_canMerge = False, oc_canHash = False\<rparr>]
   \<and> (\<exists>r. snd (DefineOperator sample_env [''@'']
            [sample_option_none ''foo'', sample_option ''function'' ''int4um'',
             sample_type_option ''rightarg'' ''int4''] sample_pg_operator) = Inr r)
   \<and> snd (AlterOperator sample_env (sample_alter ''='' 2 [sample_option_none ''foo''])
            sample_pg_operator) = Inl (not_recognized ERROR ''foo'')
   \<and> (\<exists>rest. fst (DefineOperator sample_env [''@'']
            [sample_option ''function'' ''int4um'', sample_option_none ''foo'',
             \<lparr>defname = ''leftarg'',
              arg = Some (T_TypeName \<lparr>names = [''int4''], setof = True\<rparr>)\<rparr>]
            sample_pg_operator) = Report (not_recognized WARNING ''foo'') # rest)"
proof -
  let ?foo = "sample_option_none ''foo''"
  let ?ps = "[?foo, sample_option ''function'' ''int4um'',
              sample_type_option ''rightarg'' ''int4'']"
  have names [simp]: "defname ?foo = ''foo''"
    "defname (sample_option ''function'' ''int4um'') = ''function''"
    "defname (sample_type_option ''rightarg'' ''int4'') = ''rightarg''"
    by (simp_all add: sample_option_none_def sample_option_def sample_type_option_def)
  have a: "DefineOperator_defel sample_env DefineOperator_init ?foo =
     ([Report (not_recognized WARNING ''foo'')], Inr DefineOperator_init)"
    using DefineOperator_unrecognized_option
      [of ?foo sample_env DefineOperator_init, THEN conjunct1]
    by simp
  have loop: "snd (DefineOperator_foreach sample_env DefineOperator_init ?ps) =
      Inr (DefineOperator_init\<lparr>functionName := [''int4um''],
             typeName2 := Some \<lparr>names = [''int4''], setof = False\<rparr>\<rparr>)"
    by (simp add: sample_all_defs define_eval_defs sample_type_option_def)
  have ns: "QualifiedNameGetCreationNamespace sample_env [''@''] = Inr (2200, ''@'')"
    by (simp add: sample_env_def)
  have acl: "pg_namespace_aclcheck sample_env 2200 (GetUserId sample_env) ACL_CREATE =
      ACLCHECK_OK"
    by (simp add: sample_env_def)
  have b: "fst (DefineOperator sample_env [''@''] ?ps sample_pg_operator) =
       [Report (not_recognized WARNING ''foo''),
        LookupFuncName_call [''int4um''] 1 [INT4OID] False,
        OperatorCreate_call
          \<lparr>oc_operatorName = ''@'', oc_operatorNamespace = 2200, oc_leftTypeId = InvalidOid,
           oc_rightTypeId = INT4OID, oc_procedureId = 212, oc_commutatorName = [],
           oc_negatorName = [], oc_restrictionId = InvalidOid, oc_joinId = InvalidOid,
           oc_canMerge = False, oc_canHash = False\<rparr>]"
    using DefineOperator_unrecognized_option
      [of _ sample_env _ "[''@'']" ?ps sample_pg_operator 2200 "''@''",
       THEN conjunct2, THEN conjunct2, THEN conjunct1, rule_format,
       OF conjI [OF ns conjI [OF acl loop]]]
      sample_define_prefix_run
    by simp
  have c: "\<exists>r. snd (DefineOperator sample_env [''@''] ?ps sample_pg_operator) = Inr r"
    using DefineOperator_unrecognized_option
      [of _ sample_env _ "[''@'']" ?ps sample_pg_operator, THEN conjunct2, THEN conjunct1]
      sample_define_prefix_succeeds
    by simp
  have d: "snd (AlterOperator sample_env (sample_alter ''='' 2 [?foo]) sample_pg_operator) =
      Inl (not_recognized ERROR (defname ?foo))"
    using DefineOperator_unrecognized_option
      [where d = ?foo and env = sample_env and stmt = "sample_alter ''='' 2 [?foo]"
         and t = sample_pg_operator and oprId = 500 and pre = "[]" and post = "[]"
         and av = AlterOperator_init,
       THEN conjunct2, THEN conjunct2, THEN conjunct2, THEN conjunct2, THEN conjunct2,
       THEN conjunct1]
      sample_found_eq
    by (simp add: sample_alter_def sample_option_none_def)
  have front: "DefineOperator_foreach sample_env DefineOperator_init
                 [sample_option ''function'' ''int4um''] =
               ([], Inr (DefineOperator_init\<lparr>functionName := [''int4um'']\<rparr>))"
    by (simp add: sample_all_defs define_eval_defs)
  have e: "\<exists>rest. fst (DefineOperator sample_env [''@'']
            [sample_option ''function'' ''int4um'', ?foo,
             \<lparr>defname = ''leftarg'',
              arg = Some (T_TypeName \<lparr>names = [''int4''], setof = True\<rparr>)\<rparr>]
            sample_pg_operator) = Report (not_recognized WARNING (defname ?foo)) # rest"
    using DefineOperator_unrecognized_option
      [where d = ?foo and env = sample_env and nm = "[''@'']" and ns = 2200 and n = "''@''"
         and front = "[sample_option ''function'' ''int4um'']"
         and u = "DefineOperator_init\<lparr>functionName := [''int4um'']\<rparr>"
         and rear = "[\<lparr>defname = ''leftarg'',
              arg = Some (T_TypeName \<lparr>names = [''int4''], setof = True\<rparr>)\<rparr>]"
         and s = sample_pg_operator,
       THEN conjunct2, THEN conjunct2, THEN conjunct2, THEN conjunct1]
      ns acl front
    by simp
  from a b c d e show ?thesis by simp
qed

text \<open>
  C5 as the spec words it fails: when an option before the unrecognized one cannot be
  read, here a \<^verbatim>\<open>SETOF\<close> operand type, the run stops there, and no warning is
  reported.
\<close>

theorem DefineOperator_unrecognized_option_counterexample:
  "\<not> DefineOperator_recognized ''foo''
   \<and> DefineOperator sample_env [''@'']
       [\<lparr>defname = ''leftarg'',
         arg = Some (T_TypeName \<lparr>names = [''int4''], setof = True\<rparr>)\<rparr>,
        sample_option_none ''foo'', sample_option ''function'' ''int4eq'',
        sample_type_option ''rightarg'' ''int4''] sample_pg_operator =
       ([], Inl (ereport ERROR ERRCODE_INVALID_FUNCTION_DEFINITION
                   ''SETOF type not allowed for operator argument'' []))"
  by (simp add: DefineOperator_def sample_all_defs define_eval_defs sample_type_option_def
      DefineOperator_recognized_def ereport_def)

subsection \<open>Definition: the loop over the options\<close>

text \<open>
  C10. When the loop over the options ends, the variable that a recognized option
  assigns holds what that option writes, whatever the options before it were, provided
  that no later option assigns the same variable; what an option writes does not depend
  on the variables it starts from. Each of \<^verbatim>\<open>sort1\<close>, \<^verbatim>\<open>sort2\<close>, \<^verbatim>\<open>ltcmp\<close> and
  \<^verbatim>\<open>gtcmp\<close> sets \<^verbatim>\<open>canMerge\<close> to true without reading its value, and produces no
  event. So \<^verbatim>\<open>canMerge\<close> is true at the end when no \<^verbatim>\<open>merges\<close> and no other such
  option follows, and it is the value of a \<^verbatim>\<open>merges\<close> option that nothing of the kind
  follows.
\<close>

theorem DefineOperator_last_write_wins:
  "(snd (DefineOperator_foreach env v0 (pre @ d # post)) = Inr v \<and>
    DefineOperator_recognized (defname d) \<and>
    (\<forall>e \<in> set post. DefineOperator_slot (defname e) \<noteq> DefineOperator_slot (defname d)) \<and>
    snd (DefineOperator_defel env w d) = Inr w' \<longrightarrow>
      DefineOperator_slot_value (DefineOperator_slot (defname d)) v =
      DefineOperator_slot_value (DefineOperator_slot (defname d)) w')
   \<and> (DefineOperator_merge_alias (defname d) \<longrightarrow>
        DefineOperator_defel env w d = ([], Inr (w\<lparr>canMerge := True\<rparr>)))
   \<and> (snd (DefineOperator_foreach env v0 (pre @ d # post)) = Inr v \<and>
       DefineOperator_merge_alias (defname d) \<and>
       (\<forall>e \<in> set post. defname e \<noteq> ''merges'' \<and> \<not> DefineOperator_merge_alias (defname e))
       \<longrightarrow> canMerge v)
   \<and> (snd (DefineOperator_foreach env v0 (pre @ d # post)) = Inr v \<and>
       defname d = ''merges'' \<and>
       (\<forall>e \<in> set post. defname e \<noteq> ''merges'' \<and> \<not> DefineOperator_merge_alias (defname e))
       \<longrightarrow> defGetBoolean env d = Inr (canMerge v))"
proof -
  have last: "DefineOperator_slot_value (DefineOperator_slot (defname d)) v =
      DefineOperator_slot_value (DefineOperator_slot (defname d)) w'"
    if a: "snd (DefineOperator_foreach env v0 (pre @ d # post)) = Inr v \<and>
      DefineOperator_recognized (defname d) \<and>
      (\<forall>e \<in> set post. DefineOperator_slot (defname e) \<noteq> DefineOperator_slot (defname d)) \<and>
      snd (DefineOperator_defel env w d) = Inr w'"
  proof -
    from a DefineOperator_foreach_last [of env v0 pre d post v] obtain u u' where
      u: "snd (DefineOperator_defel env u d) = Inr u'"
         "DefineOperator_slot_value (DefineOperator_slot (defname d)) v =
          DefineOperator_slot_value (DefineOperator_slot (defname d)) u'"
      by blast
    from a DefineOperator_defel_written [OF u(1), of w w'] u(2) show ?thesis
      by simp
  qed
  have legacy: "DefineOperator_defel env w d = ([], Inr (w\<lparr>canMerge := True\<rparr>))"
    if "DefineOperator_merge_alias (defname d)"
    using that by (rule DefineOperator_defel_alias)
  have slot0: "\<forall>e \<in> set post. DefineOperator_slot (defname e) \<noteq> 0"
    if "\<forall>e \<in> set post. defname e \<noteq> ''merges'' \<and> \<not> DefineOperator_merge_alias (defname e)"
    using that by (simp add: DefineOperator_slot_merges)
  have flag: "DefineOperator_slot_value 0 x = Flag (canMerge x)" for x
    by (simp add: DefineOperator_slot_value_def)
  have on: "canMerge v"
    if a: "snd (DefineOperator_foreach env v0 (pre @ d # post)) = Inr v \<and>
       DefineOperator_merge_alias (defname d) \<and>
       (\<forall>e \<in> set post. defname e \<noteq> ''merges'' \<and> \<not> DefineOperator_merge_alias (defname e))"
  proof -
    from a have s: "DefineOperator_slot (defname d) = 0"
      by (simp add: DefineOperator_slot_merges)
    from a slot0 have p: "\<forall>e \<in> set post. DefineOperator_slot (defname e) \<noteq> 0"
      by blast
    from a DefineOperator_foreach_last [of env v0 pre d post v] s p obtain u u' where
      u: "snd (DefineOperator_defel env u d) = Inr u'"
         "DefineOperator_slot_value 0 v = DefineOperator_slot_value 0 u'"
      by auto
    from a u(1) have "u' = u\<lparr>canMerge := True\<rparr>"
      by (simp add: DefineOperator_defel_alias)
    with u(2) show ?thesis by (simp add: flag)
  qed
  have reset: "defGetBoolean env d = Inr (canMerge v)"
    if a: "snd (DefineOperator_foreach env v0 (pre @ d # post)) = Inr v \<and>
       defname d = ''merges'' \<and>
       (\<forall>e \<in> set post. defname e \<noteq> ''merges'' \<and> \<not> DefineOperator_merge_alias (defname e))"
  proof -
    from a have s: "DefineOperator_slot (defname d) = 0"
      by (simp add: DefineOperator_slot_merges)
    from a slot0 have p: "\<forall>e \<in> set post. DefineOperator_slot (defname e) \<noteq> 0"
      by blast
    from a DefineOperator_foreach_last [of env v0 pre d post v] s p obtain u u' where
      u: "snd (DefineOperator_defel env u d) = Inr u'"
         "DefineOperator_slot_value 0 v = DefineOperator_slot_value 0 u'"
      by auto
    from a DefineOperator_defel_merges [OF _ u(1)] have "defGetBoolean env d = Inr (canMerge u')"
      by simp
    with u(2) show ?thesis by (simp add: flag)
  qed
  from last legacy on reset show ?thesis by blast
qed

text \<open>
  In the sample: \<^verbatim>\<open>sort1 = false\<close> alone, \<^verbatim>\<open>sort1 = false\<close> followed by
  \<^verbatim>\<open>merges = false\<close>, and a function named twice.
\<close>

theorem DefineOperator_last_write_wins_witness:
  "(\<exists>v. snd (DefineOperator_foreach sample_env DefineOperator_init
             [sample_option ''sort1'' ''false'']) = Inr v \<and> canMerge v)
   \<and> (\<exists>v. snd (DefineOperator_foreach sample_env DefineOperator_init
             [sample_option ''sort1'' ''false'', sample_option ''merges'' ''false'']) = Inr v
          \<and> canMerge v = False)
   \<and> (\<exists>v. snd (DefineOperator_foreach sample_env DefineOperator_init
             [sample_option ''function'' ''int4eq'', sample_option ''merges'' ''true'',
              sample_option ''function'' ''int4um'']) = Inr v
          \<and> functionName v = [''int4um''])"
proof -
  let ?sort = "sample_option ''sort1'' ''false''"
  let ?merges = "sample_option ''merges'' ''false''"
  let ?f = "sample_option ''function'' ''int4eq''"
  let ?g = "sample_option ''function'' ''int4um''"
  let ?m = "sample_option ''merges'' ''true''"
  have names [simp]: "defname (sample_option k x) = k" for k x
    by (simp add: sample_option_def)
  obtain v1 where v1: "snd (DefineOperator_foreach sample_env DefineOperator_init [?sort]) = Inr v1"
    by (simp add: sample_all_defs define_eval_defs)
  obtain v2 where
    v2: "snd (DefineOperator_foreach sample_env DefineOperator_init [?sort, ?merges]) = Inr v2"
    by (simp add: sample_all_defs define_eval_defs)
  obtain v3 where
    v3: "snd (DefineOperator_foreach sample_env DefineOperator_init [?f, ?m, ?g]) = Inr v3"
    by (simp add: sample_all_defs define_eval_defs)
  have a: "canMerge v1"
    using DefineOperator_last_write_wins
      [of sample_env DefineOperator_init "[]" ?sort "[]" v1,
       THEN conjunct2, THEN conjunct2, THEN conjunct1] v1
    by (simp add: DefineOperator_merge_alias_def)
  have b: "defGetBoolean sample_env ?merges = Inr (canMerge v2)"
    using DefineOperator_last_write_wins
      [of sample_env DefineOperator_init "[?sort]" ?merges "[]" v2,
       THEN conjunct2, THEN conjunct2, THEN conjunct2] v2
    by simp
  have w: "snd (DefineOperator_defel sample_env DefineOperator_init ?g) =
      Inr (DefineOperator_init\<lparr>functionName := [''int4um'']\<rparr>)"
    by (simp add: sample_all_defs define_eval_defs)
  have c: "DefineOperator_slot_value (DefineOperator_slot (defname ?g)) v3 =
      DefineOperator_slot_value (DefineOperator_slot (defname ?g))
        (DefineOperator_init\<lparr>functionName := [''int4um'']\<rparr>)"
    using DefineOperator_last_write_wins
      [of sample_env DefineOperator_init "[?f, ?m]" ?g "[]" v3 DefineOperator_init
          "DefineOperator_init\<lparr>functionName := [''int4um'']\<rparr>",
       THEN conjunct1] v3 w
    by (simp add: DefineOperator_recognized_def)
  from b have b': "canMerge v2 = False"
    by (simp add: sample_env_def sample_defGetBoolean_def sample_option_def)
  from c have c': "functionName v3 = [''int4um'']"
    by (simp add: DefineOperator_slot_def DefineOperator_slot_value_def)
  from a b' c' v1 v2 v3 show ?thesis by simp
qed

end
